theory Spec2Isabelle
  imports Complex_Main
begin

section \<open>Numbers\<close>

text \<open>
  The program computes with Python/numpy floats. A value of a pandas column is modelled
  as an \<open>fval\<close>: a finite number (an exact real; rounding is not modelled), one of the
  two infinities, or \<open>NaN\<close>, which is also pandas' marker of a missing value. Prices
  themselves are finite JSON numbers and are modelled as reals.
\<close>

datatype fval = NaN | NegInf | Fin real | PosInf

text \<open>\<open>abs(x)\<close>.\<close>

fun fabs :: "fval \<Rightarrow> fval" where
  "fabs NaN = NaN"
| "fabs NegInf = PosInf"
| "fabs (Fin x) = Fin \<bar>x\<bar>"
| "fabs PosInf = PosInf"

text \<open>\<open>x > t\<close> for a finite literal \<open>t\<close>; every comparison with NaN is false.\<close>

fun fgt :: "fval \<Rightarrow> real \<Rightarrow> bool" where
  "fgt NaN t = False"
| "fgt NegInf t = False"
| "fgt (Fin x) t = (x > t)"
| "fgt PosInf t = True"

text \<open>\<open>x < t\<close> for a finite literal \<open>t\<close>.\<close>

fun flt :: "fval \<Rightarrow> real \<Rightarrow> bool" where
  "flt NaN t = False"
| "flt NegInf t = True"
| "flt (Fin x) t = (x < t)"
| "flt PosInf t = False"

text \<open>\<open>x * k\<close> for a finite literal \<open>k\<close>.\<close>

fun fmul :: "fval \<Rightarrow> real \<Rightarrow> fval" where
  "fmul NaN k = NaN"
| "fmul (Fin x) k = Fin (x * k)"
| "fmul PosInf k = (if k > 0 then PosInf else if k < 0 then NegInf else NaN)"
| "fmul NegInf k = (if k > 0 then NegInf else if k < 0 then PosInf else NaN)"

section \<open>Wave segments\<close>

datatype wave_type = Impulse | Corrective

datatype magnitude = Minor | Significant | Major

text \<open>The dictionary \<open>wave_details\<close> built for each emitted wave.\<close>

record wave_segment =
  type :: wave_type
  magnitude :: magnitude
  start_index :: nat
  end_index :: nat
  percentage_change :: fval
  label :: string

text \<open>The dictionary \<open>waves\<close> returned by \<open>identify_wave_pattern\<close>.\<close>

record waves =
  impulse_waves :: "wave_segment list"
  corrective_waves :: "wave_segment list"
  wave_details :: "wave_segment list"
  wave_labels :: "string list"

text \<open>
  The dictionary \<open>thresholds\<close>; its keys \<open>'minor'\<close>, \<open>'significant'\<close>, \<open>'major'\<close> are
  the magnitude names.
\<close>

fun thresholds :: "magnitude \<Rightarrow> real" where
  "thresholds Minor = 0.02"
| "thresholds Significant = 0.05"
| "thresholds Major = 0.10"

text \<open>Python's \<open>str\<close> on a non-negative integer, and \<open>chr\<close>.\<close>

fun str :: "nat \<Rightarrow> string" where
  "str n = (if n < 10 then [char_of (48 + n)] else str (n div 10) @ [char_of (48 + n mod 10)])"

declare str.simps [simp del]

definition chr :: "nat \<Rightarrow> char" where
  "chr n = char_of n"

text \<open>
  The state of the scan: the result under construction and the two local variables
  \<open>current_wave_type\<close> (\<open>None\<close> at the start) and \<open>wave_count\<close>. The counter starts at 0
  and is only ever set to 1 or incremented, so it is a natural number.
\<close>

record scan_state =
  result :: waves
  current_wave_type :: "wave_type option"
  wave_count :: nat

definition init_state :: scan_state where
  "init_state =
     \<lparr>result = \<lparr>impulse_waves = [], corrective_waves = [], wave_details = [], wave_labels = []\<rparr>,
      current_wave_type = None, wave_count = 0\<rparr>"

text \<open>One iteration of the loop of \<open>identify_wave_pattern\<close>, at index \<open>i\<close>.\<close>

definition loop_body :: "fval list \<Rightarrow> scan_state \<Rightarrow> nat \<Rightarrow> scan_state" where
  "loop_body series st i =
     (let change = series ! i in
      if fgt (fabs change) (thresholds Minor) then
        let wave_type = (if fgt change 0 then Impulse else Corrective);
            wave_magnitude = Minor;
            wave_magnitude =
              (if fgt (fabs change) (thresholds Significant) then Significant else wave_magnitude);
            wave_magnitude =
              (if fgt (fabs change) (thresholds Major) then Major else wave_magnitude);
            (cwt, wc, wave_label) =
              (if wave_type = Impulse then
                 let (cwt, wc) =
                       (if current_wave_type st \<noteq> Some Impulse then (Some Impulse, 1)
                        else (current_wave_type st, wave_count st + 1))
                 in (cwt, wc, if wc \<le> 5 then ''Impulse '' @ str wc else ''Impulse Ext'')
               else
                 let (cwt, wc) =
                       (if current_wave_type st \<noteq> Some Corrective then (Some Corrective, 1)
                        else (current_wave_type st, wave_count st + 1))
                 in (cwt, wc,
                     if wc \<le> 3 then ''Correction '' @ [chr (64 + wc)] else ''Correction Ext''));
            details = \<lparr>type = wave_type, magnitude = wave_magnitude, start_index = i - 1,
                        end_index = i, percentage_change = fmul change 100, label = wave_label\<rparr>;
            w = result st;
            w = w\<lparr>wave_details := wave_details w @ [details]\<rparr>;
            w = w\<lparr>wave_labels := wave_labels w @ [wave_label]\<rparr>;
            w = (if wave_type = Impulse then w\<lparr>impulse_waves := impulse_waves w @ [details]\<rparr>
                 else w\<lparr>corrective_waves := corrective_waves w @ [details]\<rparr>)
        in \<lparr>result = w, current_wave_type = cwt, wave_count = wc\<rparr>
      else st)"

text \<open>
  \<open>identify_wave_pattern\<close>: the loop runs over \<open>range(1, len(series))\<close>, so entry 0 of
  the series is never read and every read is in range.
\<close>

definition scan :: "fval list \<Rightarrow> scan_state" where
  "scan series = foldl (loop_body series) init_state [1 ..< length series]"

definition identify_wave_pattern :: "fval list \<Rightarrow> waves" where
  "identify_wave_pattern series = result (scan series)"

section \<open>Candles\<close>

text \<open>
  More float arithmetic, as far as the indicator columns need it. Signed zeros are not
  modelled: a zero divisor gives the infinity with the sign of the dividend.
\<close>

fun fneg :: "fval \<Rightarrow> fval" where
  "fneg NaN = NaN"
| "fneg NegInf = PosInf"
| "fneg (Fin x) = Fin (- x)"
| "fneg PosInf = NegInf"

fun fadd :: "fval \<Rightarrow> fval \<Rightarrow> fval" where
  "fadd (Fin x) (Fin y) = Fin (x + y)"
| "fadd NaN y = NaN"
| "fadd x NaN = NaN"
| "fadd PosInf NegInf = NaN"
| "fadd NegInf PosInf = NaN"
| "fadd PosInf y = PosInf"
| "fadd NegInf y = NegInf"
| "fadd x PosInf = PosInf"
| "fadd x NegInf = NegInf"

definition fsub :: "fval \<Rightarrow> fval \<Rightarrow> fval" where
  "fsub x y = fadd x (fneg y)"

fun fdiv :: "fval \<Rightarrow> fval \<Rightarrow> fval" where
  "fdiv (Fin x) (Fin y) =
     (if y \<noteq> 0 then Fin (x / y)
      else if x > 0 then PosInf else if x < 0 then NegInf else NaN)"
| "fdiv NaN y = NaN"
| "fdiv x NaN = NaN"
| "fdiv (Fin x) PosInf = Fin 0"
| "fdiv (Fin x) NegInf = Fin 0"
| "fdiv PosInf (Fin y) = (if y < 0 then NegInf else PosInf)"
| "fdiv NegInf (Fin y) = (if y < 0 then PosInf else NegInf)"
| "fdiv x y = NaN"

datatype reason =
    Unable_to_fetch_data
  | Insufficient_data_points
  | Out_of_bounds_datetime
  | Insufficient_processed_data_points

text \<open>
  The exceptions of the program. Every exception raised inside the \<open>try\<close> of
  \<open>get_crypto_candles\<close>, its own \<open>CryptoAnalysisError\<close>s and the error of the
  timestamp conversion alike, is caught by its \<open>except Exception\<close> and raised again as
  a \<open>CryptoAnalysisError\<close> whose message embeds the first one; the \<open>reason\<close> is
  that first message.
\<close>

datatype error = CryptoAnalysisError reason | IndexError

text \<open>
  A value of a datetime column: a time, kept as its count of milliseconds, or \<open>NaT\<close>,
  the missing datetime.
\<close>

datatype datetime = NaT | Datetime real

text \<open>
  A row of the data frame of \<open>get_crypto_candles\<close>, columns in the order they are
  created. \<open>open\<close> is NaN where \<open>shift(1)\<close> has no previous row.
\<close>

record candle =
  timestamp :: datetime
  close :: real
  "open" :: fval
  high :: real
  low :: real

text \<open>The trailing window of \<open>rolling(window=w, min_periods=1)\<close> at row \<open>i\<close>, clipped at the start.\<close>

definition rolling_window :: "nat \<Rightarrow> 'a list \<Rightarrow> nat \<Rightarrow> 'a list" where
  "rolling_window w xs i = map (\<lambda>j. xs ! j) [i + 1 - w ..< i + 1]"

text \<open>
  \<open>dropna\<close> drops the rows with a missing value: only \<open>timestamp\<close> and \<open>open\<close> can
  be missing in a row.
\<close>

definition dropna :: "candle list \<Rightarrow> candle list" where
  "dropna df = filter (\<lambda>r. timestamp r \<noteq> NaT \<and> open r \<noteq> NaN) df"

text \<open>
  \<open>get_crypto_candles\<close>, from the response \<open>data\<close> the retrieval ends with: the argument
  \<open>data\<close> is \<open>data['prices']\<close>, a list of (timestamp, close) pairs, or \<open>None\<close> when the
  key is absent. The requests themselves are outside the model.

  The conversion \<open>pd.to_datetime(..., unit='ms')\<close> of the library is the parameter
  \<open>to_datetime\<close>: for a count of milliseconds it gives a datetime, which may be \<open>NaT\<close>,
  or \<open>None\<close> where the library raises because the count is outside the range of its
  datetimes. The conversion of the column raises as soon as one entry does.
\<close>

definition get_crypto_candles ::
    "(real \<Rightarrow> datetime option) \<Rightarrow> (real \<times> real) list option \<Rightarrow> error + candle list" where
  "get_crypto_candles to_datetime data =
     (case data of
        None \<Rightarrow> Inl (CryptoAnalysisError Unable_to_fetch_data)
      | Some prices \<Rightarrow>
          if length prices = 0 then Inl (CryptoAnalysisError Unable_to_fetch_data)
          else if length prices < 2 then Inl (CryptoAnalysisError Insufficient_data_points)
          else if list_ex (\<lambda>p. to_datetime (fst p) = None) prices
          then Inl (CryptoAnalysisError Out_of_bounds_datetime)
          else
            let closes = map snd prices;
                df = map (\<lambda>i. \<lparr>timestamp = the (to_datetime (fst (prices ! i))),
                                close = closes ! i,
                                open = (if i = 0 then NaN else Fin (closes ! (i - 1))),
                                high = Max (set (rolling_window 4 closes i)),
                                low = Min (set (rolling_window 4 closes i))\<rparr>)
                         [0 ..< length prices];
                df = dropna df
            in if length df < 2 then Inl (CryptoAnalysisError Insufficient_processed_data_points)
               else Inr df)"

section \<open>Indicators\<close>

record indicator_row = candle +
  price_change :: fval
  pct_change :: fval
  rsi :: fval

text \<open>
  \<open>Series.diff()\<close> and \<open>Series.pct_change()\<close> (\<open>x / x.shift(1) - 1\<close>) of a column of
  finite numbers, in exact arithmetic. The program computes them in 64-bit floats, whose
  results can differ from the exact ones in the last place: \<open>102 / 100 - 1\<close> is
  slightly above 0.02 there and exactly 0.02 here. The properties of the scan below are
  stated for every series of changes, whatever arithmetic produced it; of these two
  columns they use row 0 only.
\<close>

definition diff :: "real list \<Rightarrow> fval list" where
  "diff xs = map (\<lambda>i. if i = 0 then NaN else fsub (Fin (xs ! i)) (Fin (xs ! (i - 1))))
               [0 ..< length xs]"

definition pct_change_of :: "real list \<Rightarrow> fval list" where
  "pct_change_of xs =
     map (\<lambda>i. if i = 0 then NaN else fsub (fdiv (Fin (xs ! i)) (Fin (xs ! (i - 1)))) (Fin 1))
       [0 ..< length xs]"

text \<open>
  \<open>rolling(window=w).mean()\<close> at row \<open>i\<close>: NaN until the window holds \<open>w\<close> values that are
  not NaN. The columns it is applied to hold finite numbers only (see \<open>gain_nth\<close>
  and \<open>loss_nth\<close> below), so the mean of a window with an infinite entry is left as NaN.
\<close>

fun the_fin :: "fval \<Rightarrow> real" where
  "the_fin (Fin x) = x"
| "the_fin _ = 0"

fun is_fin :: "fval \<Rightarrow> bool" where
  "is_fin (Fin x) = True"
| "is_fin _ = False"

definition rolling_mean :: "nat \<Rightarrow> fval list \<Rightarrow> nat \<Rightarrow> fval" where
  "rolling_mean w xs i =
     (if i + 1 < w then NaN
      else let win = rolling_window w xs i in
           if list_all is_fin win then Fin (sum_list (map the_fin win) / real w) else NaN)"

text \<open>\<open>delta.where(delta > 0, 0)\<close> and \<open>-delta.where(delta < 0, 0)\<close>.\<close>

definition gain_col :: "fval list \<Rightarrow> fval list" where
  "gain_col delta = map (\<lambda>d. if fgt d 0 then d else Fin 0) delta"

definition loss_col :: "fval list \<Rightarrow> fval list" where
  "loss_col delta = map (\<lambda>d. fneg (if flt d 0 then d else Fin 0)) delta"

text \<open>The column \<open>df['rsi']\<close> at row \<open>i\<close>, from the closes of the data frame.\<close>

definition rsi_of :: "real list \<Rightarrow> nat \<Rightarrow> fval" where
  "rsi_of closes i =
     (let delta = diff closes;
          gain = rolling_mean 14 (gain_col delta) i;
          loss = rolling_mean 14 (loss_col delta) i;
          rs = fdiv gain loss
      in fsub (Fin 100) (fdiv (Fin 100) (fadd (Fin 1) rs)))"

text \<open>
  \<open>detect_elliot_waves\<close>: the three indicator columns are added to the data frame and the
  waves are read off \<open>df['pct_change'].values\<close>. The plot and its file are not modelled.
\<close>

definition detect_elliot_waves :: "candle list \<Rightarrow> waves \<times> indicator_row list" where
  "detect_elliot_waves df =
     (let closes = map close df;
          rows = map (\<lambda>i. candle.extend (df ! i)
                             (indicator_row.fields (diff closes ! i) (pct_change_of closes ! i)
                                (rsi_of closes i)))
                   [0 ..< length df];
          waves = identify_wave_pattern (map pct_change rows)
      in (waves, rows))"

section \<open>Interpretation\<close>

datatype trend = Bullish | Bearish

text \<open>
  \<open>'bullish' if impulse_waves and impulse_waves[-1]['type'] == 'impulse' else 'bearish'\<close>
\<close>

definition price_trend :: "waves \<Rightarrow> trend" where
  "price_trend w =
     (if impulse_waves w \<noteq> [] \<and> type (last (impulse_waves w)) = Impulse then Bullish
      else Bearish)"

text \<open>
  The nested function \<open>get_investment_recommendation\<close>; the three variables it closes
  over are its arguments.
\<close>

definition get_investment_recommendation ::
    "wave_segment list \<Rightarrow> wave_segment list \<Rightarrow> trend \<Rightarrow> string \<times> string" where
  "get_investment_recommendation impulses correctives tr =
     (if length impulses > length correctives \<and> tr = Bullish then
        (''STRONG BUY'', ''The current wave pattern suggests a strong upward momentum.'')
      else if length impulses > length correctives then
        (''MODERATE BUY'', ''The wave pattern indicates potential growth.'')
      else if length correctives > length impulses then
        (''HOLD/CAUTION'',
         ''The market shows more corrective patterns, suggesting potential volatility.'')
      else (''NEUTRAL'', ''The wave patterns are relatively balanced.''))"

text \<open>
  What \<open>interpret_elliot_waves\<close> computes before it formats the explanation text: the
  entries of \<open>wave_interpretation\<close>, the current price and the recommendation with its
  reason. \<open>df['close'].iloc[-1]\<close> raises \<open>IndexError\<close> on an empty data frame.
\<close>

record analysis =
  total_waves :: nat
  impulse_waves_count :: nat
  corrective_waves_count :: nat
  dominant_trend :: trend
  current_price :: real
  recommendation :: string
  recommendation_reason :: string

definition interpret_elliot_waves :: "waves \<Rightarrow> indicator_row list \<Rightarrow> error + analysis" where
  "interpret_elliot_waves w df =
     (if df = [] then Inl IndexError
      else
        let rr = get_investment_recommendation (impulse_waves w) (corrective_waves w)
                   (price_trend w)
        in Inr \<lparr>total_waves = length (wave_details w),
                 impulse_waves_count = length (impulse_waves w),
                 corrective_waves_count = length (corrective_waves w),
                 dominant_trend = price_trend w,
                 current_price = close (last df),
                 recommendation = fst rr,
                 recommendation_reason = snd rr\<rparr>)"

section \<open>Notions of the specification\<close>

text \<open>
  The properties below are stated with the words of the specification. A change
  \<open>exceeds\<close> a tier when its absolute value is strictly above the threshold of the tier;
  \<open>highest_exceeded\<close> is the highest of the three tiers that the change exceeds (there
  is one as soon as the minor threshold is exceeded).
\<close>

definition exceeds :: "fval \<Rightarrow> magnitude \<Rightarrow> bool" where
  "exceeds c m = fgt (fabs c) (thresholds m)"

definition highest_exceeded :: "fval \<Rightarrow> magnitude" where
  "highest_exceeded c = last (filter (exceeds c) [Minor, Significant, Major])"

text \<open>The type of the wave of a change: Impulse if it is positive, Corrective otherwise.\<close>

definition wave_type_of :: "fval \<Rightarrow> wave_type" where
  "wave_type_of c = (if fgt c 0 then Impulse else Corrective)"

text \<open>
  The label sequences of the two types, written out, the label they freeze at, and the
  label of the \<open>k\<close>-th wave of a run (\<open>k\<close> from 1).
\<close>

fun run_labels :: "wave_type \<Rightarrow> string list" where
  "run_labels Impulse = [''Impulse 1'', ''Impulse 2'', ''Impulse 3'', ''Impulse 4'', ''Impulse 5'']"
| "run_labels Corrective = [''Correction A'', ''Correction B'', ''Correction C'']"

fun ext_label :: "wave_type \<Rightarrow> string" where
  "ext_label Impulse = ''Impulse Ext''"
| "ext_label Corrective = ''Correction Ext''"

definition run_label :: "wave_type \<Rightarrow> nat \<Rightarrow> string" where
  "run_label ty k = (if k \<le> length (run_labels ty) then run_labels ty ! (k - 1) else ext_label ty)"

text \<open>
  The length of the run of equal entries that a list ends with, and the labels expected
  for a sequence of wave types: each wave is labelled by its place in its run.
\<close>

definition run_length :: "'a list \<Rightarrow> nat" where
  "run_length ts = length (takeWhile (\<lambda>t. t = last ts) (rev ts))"

definition expected_labels :: "wave_type list \<Rightarrow> string list" where
  "expected_labels ts =
     map (\<lambda>j. run_label (ts ! j) (run_length (take (Suc j) ts))) [0 ..< length ts]"

text \<open>
  The gain and the loss of a row as the specification has them,
  \<open>max(price_change, 0)\<close> and \<open>max(-price_change, 0)\<close>, with 0 on row 0 where the
  program replaces the undefined change; and their averages over the last 14 rows.
\<close>

definition gain_at :: "real list \<Rightarrow> nat \<Rightarrow> real" where
  "gain_at xs i = (if i = 0 then 0 else max (xs ! i - xs ! (i - 1)) 0)"

definition loss_at :: "real list \<Rightarrow> nat \<Rightarrow> real" where
  "loss_at xs i = (if i = 0 then 0 else max (- (xs ! i - xs ! (i - 1))) 0)"

definition avg_gain :: "real list \<Rightarrow> nat \<Rightarrow> real" where
  "avg_gain xs i = sum_list (map (gain_at xs) [i - 13 ..< i + 1]) / 14"

definition avg_loss :: "real list \<Rightarrow> nat \<Rightarrow> real" where
  "avg_loss xs i = sum_list (map (loss_at xs) [i - 13 ..< i + 1]) / 14"

section \<open>Auxiliary notions\<close>

text \<open>
  Parts of the loop body as functions of their own: the counter after a wave of type
  \<open>ty\<close> is emitted from state \<open>st\<close>, the label expression and the magnitude
  assignments of the program, and the segment emitted at index \<open>i\<close> in terms of the
  notions of the specification.
\<close>

definition next_count :: "scan_state \<Rightarrow> wave_type \<Rightarrow> nat" where
  "next_count st ty = (if current_wave_type st = Some ty then wave_count st + 1 else 1)"

definition code_label :: "wave_type \<Rightarrow> nat \<Rightarrow> string" where
  "code_label ty k =
     (case ty of
        Impulse \<Rightarrow> if k \<le> 5 then ''Impulse '' @ str k else ''Impulse Ext''
      | Corrective \<Rightarrow> if k \<le> 3 then ''Correction '' @ [chr (64 + k)] else ''Correction Ext'')"

definition code_magnitude :: "fval \<Rightarrow> magnitude" where
  "code_magnitude c =
     (if exceeds c Major then Major else if exceeds c Significant then Significant else Minor)"

definition emitted :: "fval list \<Rightarrow> scan_state \<Rightarrow> nat \<Rightarrow> wave_segment" where
  "emitted series st i =
     (let c = series ! i; ty = wave_type_of c in
      \<lparr>type = ty, magnitude = highest_exceeded c, start_index = i - 1, end_index = i,
       percentage_change = fmul c 100,
       label = run_label ty (next_count st ty)\<rparr>)"

text \<open>
  The invariant of the scan: the label list and the two sub-lists are determined by the
  list of all segments, the labels follow the runs, and the two local variables hold
  the type and the length of the last run.
\<close>

definition scan_inv :: "scan_state \<Rightarrow> bool" where
  "scan_inv st =
     (let wd = wave_details (result st); ts = map type wd in
      wave_labels (result st) = map label wd \<and>
      impulse_waves (result st) = filter (\<lambda>w. type w = Impulse) wd \<and>
      corrective_waves (result st) = filter (\<lambda>w. type w = Corrective) wd \<and>
      map label wd = expected_labels ts \<and>
      (if wd = [] then current_wave_type st = None \<and> wave_count st = 0
       else current_wave_type st = Some (last ts) \<and> wave_count st = run_length ts))"

text \<open>
  A segment without its label, the same for the segment of index \<open>i\<close>, and a segment
  without its indices.
\<close>

definition core :: "wave_segment \<Rightarrow> wave_type \<times> magnitude \<times> nat \<times> nat \<times> fval" where
  "core w = (type w, magnitude w, start_index w, end_index w, percentage_change w)"

definition core_at :: "fval list \<Rightarrow> nat \<Rightarrow> wave_type \<times> magnitude \<times> nat \<times> nat \<times> fval" where
  "core_at series i =
     (wave_type_of (series ! i), highest_exceeded (series ! i), i - 1, i, fmul (series ! i) 100)"

definition content :: "wave_segment \<Rightarrow> wave_type \<times> magnitude \<times> fval \<times> string" where
  "content w = (type w, magnitude w, percentage_change w, label w)"

text \<open>
  A count of milliseconds is convertible when the conversion gives a time for it:
  it neither raises nor gives \<open>NaT\<close>.
\<close>

definition convertible :: "(real \<Rightarrow> datetime option) \<Rightarrow> real \<Rightarrow> bool" where
  "convertible to_datetime t =
     (case to_datetime t of Some (Datetime d) \<Rightarrow> True | _ \<Rightarrow> False)"

text \<open>The candle of point \<open>i\<close>, for \<open>i\<close> from 1.\<close>

definition candle_at :: "(real \<Rightarrow> datetime option) \<Rightarrow> (real \<times> real) list \<Rightarrow> nat \<Rightarrow> candle" where
  "candle_at to_datetime prices i =
     \<lparr>timestamp = the (to_datetime (fst (prices ! i))), close = snd (prices ! i),
      open = Fin (snd (prices ! (i - 1))),
      high = Max (set (rolling_window 4 (map snd prices) i)),
      low = Min (set (rolling_window 4 (map snd prices) i))\<rparr>"

section \<open>Example inputs\<close>

text \<open>
  The percentage changes of the first scenario of the specification, as the scan
  receives them (entry 0 is undefined), and the last row of a data frame.
\<close>

definition scenario1 :: "fval list" where
  "scenario1 = [NaN, Fin 0.02, Fin 0.0588, Fin (- 0.0833), Fin (- 0.0404)]"

definition last_row :: indicator_row where
  "last_row = \<lparr>timestamp = Datetime 4, close = 95, open = Fin 99, high = 108, low = 95,
               price_change = Fin (- 4), pct_change = Fin (- 0.0404), rsi = NaN\<rparr>"

text \<open>A segment of a given type, for examples where only the type matters.\<close>

definition seg :: "wave_type \<Rightarrow> wave_segment" where
  "seg ty = \<lparr>type = ty, magnitude = Minor, start_index = 0, end_index = 1,
             percentage_change = Fin 3, label = ''x''\<rparr>"

text \<open>Two moves of +12%, and a single move of -3%.\<close>

definition rally :: "fval list" where
  "rally = [NaN, Fin 0.12, Fin 0.12]"

definition dip :: "fval list" where
  "dip = [NaN, Fin (- 0.03)]"

text \<open>
  A series with a run of six impulse waves, a run of four corrective waves and a last
  impulse wave, with points below the threshold in between; and a state of the scan in
  the middle of a run.
\<close>

definition long_run :: "fval list" where
  "long_run = [NaN, Fin 0.03, Fin 0.03, Fin 0.01, Fin 0.03, Fin 0.03, Fin 0.03, Fin 0.03,
               Fin (- 0.03), Fin (- 0.03), Fin 0, Fin (- 0.03), Fin (- 0.03), Fin 0.06]"

definition in_run :: "wave_type \<Rightarrow> nat \<Rightarrow> scan_state" where
  "in_run ty k =
     \<lparr>result = \<lparr>impulse_waves = [], corrective_waves = [], wave_details = [], wave_labels = []\<rparr>,
      current_wave_type = Some ty, wave_count = k\<rparr>"

text \<open>
  A conversion for the examples. The library holds a datetime as a 64-bit count of
  nanoseconds, so a count of milliseconds is converted when its nanoseconds fit that
  range, and the conversion raises otherwise.
\<close>

definition to_datetime_ms :: "real \<Rightarrow> datetime option" where
  "to_datetime_ms t =
     (if \<bar>t\<bar> * 1000000 \<le> 9223372036854775807 then Some (Datetime t) else None)"

text \<open>
  Price series of two and of three points, one whose last timestamp is out of range,
  and the wave set with no wave.
\<close>

definition two_points :: "(real \<times> real) list" where
  "two_points = [(0, 50), (1, 50.5)]"

definition three_points :: "(real \<times> real) list" where
  "three_points = [(0, 100), (1, 102), (2, 108)]"

definition late_points :: "(real \<times> real) list" where
  "late_points = [(0, 100), (1, 102), (10000000000000000000, 108)]"

definition empty_waves :: waves where
  "empty_waves = \<lparr>impulse_waves = [], corrective_waves = [], wave_details = [], wave_labels = []\<rparr>"

text \<open>Fourteen closes rising by 1, and a data frame with these closes.\<close>

definition climb :: "real list" where
  "climb = [1, 2, 3, 4, 5, 6, 7, 8, 9, 10, 11, 12, 13, 14]"

definition climb_df :: "candle list" where
  "climb_df = map (\<lambda>c. \<lparr>timestamp = Datetime c, close = c, open = Fin (c - 1), high = c, low = c - 1\<rparr>) climb"

section \<open>The scan, step by step\<close>

lemma str_digits:
  "str 1 = ''1''" "str 2 = ''2''" "str 3 = ''3''" "str 4 = ''4''" "str 5 = ''5''"
  by code_simp+

lemma str_Suc0: "str (Suc 0) = ''1''"
  using str_digits(1) by simp

lemma chr_letters: "chr 65 = CHR ''A''" "chr 66 = CHR ''B''" "chr 67 = CHR ''C''"
  by code_simp+

lemma code_label_run_label: "0 < k \<Longrightarrow> code_label ty k = run_label ty k"
proof (cases ty)
  case Impulse
  assume "0 < k"
  then consider "k = 1" | "k = 2" | "k = 3" | "k = 4" | "k = 5" | "5 < k" by linarith
  then show ?thesis using Impulse
    by cases (simp_all add: run_label_def code_label_def str_digits str_Suc0)
next
  case Corrective
  assume "0 < k"
  then consider "k = 1" | "k = 2" | "k = 3" | "3 < k" by linarith
  then show ?thesis using Corrective
    by cases (simp_all add: run_label_def code_label_def chr_letters)
qed

lemma code_magnitude_highest: "exceeds c Minor \<Longrightarrow> code_magnitude c = highest_exceeded c"
  by (cases c) (auto simp: highest_exceeded_def exceeds_def code_magnitude_def)

lemma loop_body_skip: "\<not> exceeds (series ! i) Minor \<Longrightarrow> loop_body series st i = st"
  by (simp add: loop_body_def exceeds_def)

lemma next_count_pos: "0 < next_count st ty"
  by (simp add: next_count_def)

lemma loop_body_code:
  assumes "exceeds (series ! i) Minor"
  shows "loop_body series st i =
     (let c = series ! i; ty = wave_type_of c;
          seg = \<lparr>type = ty, magnitude = code_magnitude c, start_index = i - 1, end_index = i,
                  percentage_change = fmul c 100, label = code_label ty (next_count st ty)\<rparr> in
      \<lparr>result = \<lparr>impulse_waves = impulse_waves (result st) @ (if ty = Impulse then [seg] else []),
                 corrective_waves = corrective_waves (result st) @ (if ty = Impulse then [] else [seg]),
                 wave_details = wave_details (result st) @ [seg],
                 wave_labels = wave_labels (result st) @ [label seg]\<rparr>,
       current_wave_type = Some ty,
       wave_count = next_count st ty\<rparr>)"
  using assms
  by (auto simp: loop_body_def wave_type_of_def Let_def exceeds_def code_label_def
      code_magnitude_def next_count_def)

lemma loop_body_emit:
  assumes "exceeds (series ! i) Minor"
  shows "loop_body series st i =
     (let seg = emitted series st i in
      \<lparr>result = \<lparr>impulse_waves = impulse_waves (result st) @ (if type seg = Impulse then [seg] else []),
                 corrective_waves = corrective_waves (result st) @ (if type seg = Impulse then [] else [seg]),
                 wave_details = wave_details (result st) @ [seg],
                 wave_labels = wave_labels (result st) @ [label seg]\<rparr>,
       current_wave_type = Some (type seg),
       wave_count = next_count st (type seg)\<rparr>)"
  by (simp add: loop_body_code[OF assms] emitted_def Let_def
      code_label_run_label[OF next_count_pos] code_magnitude_highest[OF assms])

lemma run_length_snoc:
  "run_length (ts @ [t]) = (if ts \<noteq> [] \<and> last ts = t then run_length ts + 1 else 1)"
proof (cases ts rule: rev_cases)
  case Nil
  then show ?thesis by (simp add: run_length_def)
next
  case (snoc us u)
  then show ?thesis by (simp add: run_length_def)
qed

lemma expected_labels_snoc:
  "expected_labels (ts @ [t]) = expected_labels ts @ [run_label t (run_length (ts @ [t]))]"
  by (simp add: expected_labels_def nth_append)

lemma expected_labels_Nil: "expected_labels [] = []"
  by (simp add: expected_labels_def)

lemma scan_inv_init: "scan_inv init_state"
  by (simp add: scan_inv_def init_state_def expected_labels_Nil)

lemma next_count_inv:
  "scan_inv st \<Longrightarrow>
   next_count st ty = run_length (map type (wave_details (result st)) @ [ty])"
  by (auto simp: scan_inv_def Let_def next_count_def run_length_snoc last_map split: if_splits)

lemma scan_inv_step: "scan_inv st \<Longrightarrow> scan_inv (loop_body series st i)"
proof (cases "exceeds (series ! i) Minor")
  case False
  assume "scan_inv st"
  then show ?thesis by (simp add: loop_body_skip[OF False])
next
  case True
  assume inv: "scan_inv st"
  have ty: "type (emitted series st i) = wave_type_of (series ! i)"
    and lab: "label (emitted series st i) =
      run_label (wave_type_of (series ! i)) (next_count st (wave_type_of (series ! i)))"
    by (simp_all add: emitted_def Let_def)
  show ?thesis using inv
    by (cases "wave_type_of (series ! i)")
      (simp_all add: loop_body_emit[OF True] Let_def scan_inv_def ty lab
        expected_labels_snoc next_count_inv[OF inv])
qed

lemma scan_inv_foldl: "scan_inv st \<Longrightarrow> scan_inv (foldl (loop_body series) st js)"
  by (induction js arbitrary: st) (simp_all add: scan_inv_step)

lemma scan_inv_scan: "scan_inv (scan series)"
  by (simp add: scan_def scan_inv_foldl scan_inv_init)

lemma core_step:
  "map core (wave_details (result (loop_body series st j))) =
   map core (wave_details (result st)) @
   (if exceeds (series ! j) Minor then [core_at series j] else [])"
proof (cases "exceeds (series ! j) Minor")
  case True
  then show ?thesis
    by (simp add: loop_body_emit[OF True] Let_def core_def core_at_def emitted_def)
next
  case False
  then show ?thesis by (simp add: loop_body_skip[OF False])
qed

lemma core_foldl:
  "map core (wave_details (result (foldl (loop_body series) st js))) =
   map core (wave_details (result st)) @
   map (core_at series) (filter (\<lambda>i. exceeds (series ! i) Minor) js)"
  by (induction js arbitrary: st) (simp_all add: core_step)

lemma core_scan:
  "map core (wave_details (identify_wave_pattern series)) =
   map (core_at series) (filter (\<lambda>i. exceeds (series ! i) Minor) [1 ..< length series])"
  by (simp add: identify_wave_pattern_def scan_def core_foldl init_state_def)

lemma map_nth_tl: "map ((!) xs) [Suc 0 ..< length xs] = tl xs"
proof (cases xs)
  case Nil
  then show ?thesis by simp
next
  case (Cons y ys)
  have "[Suc 0 ..< length xs] = map Suc [0 ..< length ys]"
    using Cons by (simp add: map_Suc_upt)
  then show ?thesis using Cons by (simp add: map_nth o_def)
qed

lemma types_scan:
  "map type (wave_details (identify_wave_pattern series)) =
   map wave_type_of (filter (\<lambda>c. exceeds c Minor) (tl series))"
proof -
  have "map type (wave_details (identify_wave_pattern series)) =
        map fst (map core (wave_details (identify_wave_pattern series)))"
    by (simp add: core_def o_def)
  also have "\<dots> = map (\<lambda>i. wave_type_of (series ! i))
                    (filter (\<lambda>i. exceeds (series ! i) Minor) [1 ..< length series])"
    by (simp add: core_scan core_at_def o_def)
  also have "\<dots> = map wave_type_of
                    (filter (\<lambda>c. exceeds c Minor) (map ((!) series) [1 ..< length series]))"
    by (simp add: filter_map o_def)
  finally show ?thesis by (simp add: map_nth_tl)
qed

lemma labels_scan:
  "wave_labels (identify_wave_pattern series) =
   expected_labels (map type (wave_details (identify_wave_pattern series)))"
  using scan_inv_scan[of series] by (simp add: scan_inv_def Let_def identify_wave_pattern_def)

section \<open>Magnitude tiers\<close>

lemma magnitudes_scan:
  "map (\<lambda>w. (end_index w, magnitude w)) (wave_details (identify_wave_pattern series)) =
   map (\<lambda>i. (i, highest_exceeded (series ! i)))
     (filter (\<lambda>i. exceeds (series ! i) Minor) [1 ..< length series])"
proof -
  have "map (\<lambda>w. (end_index w, magnitude w)) (wave_details (identify_wave_pattern series)) =
        map (\<lambda>(t, m, s, e, p). (e, m)) (map core (wave_details (identify_wave_pattern series)))"
    by (simp add: core_def o_def)
  then show ?thesis
    by (simp add: core_scan core_at_def o_def)
qed

text \<open>
  C1. The scan emits one segment for each index from 1 on whose change exceeds the minor
  threshold in absolute value, in scan order, and the magnitude of that segment is the
  highest of Minor, Significant, Major whose threshold the absolute change strictly
  exceeds. On the thresholds themselves the tier is not upgraded: a change of exactly
  0.05 (or -0.05) is Minor and one of exactly 0.10 (or -0.10) is Significant, while 0.02
  itself emits nothing.
\<close>

theorem magnitude_is_highest_exceeded:
  "map (\<lambda>w. (end_index w, magnitude w)) (wave_details (identify_wave_pattern series)) =
     map (\<lambda>i. (i, highest_exceeded (series ! i)))
       (filter (\<lambda>i. exceeds (series ! i) Minor) [1 ..< length series]) \<and>
   map magnitude (wave_details (identify_wave_pattern
       [x, Fin 0.05, Fin (- 0.05), Fin 0.10, Fin (- 0.10), Fin 0.02, Fin 0.11, Fin 0.051])) =
     [Minor, Minor, Significant, Significant, Major, Significant]"
proof -
  have "map magnitude (wave_details (identify_wave_pattern
       [x, Fin 0.05, Fin (- 0.05), Fin 0.10, Fin (- 0.10), Fin 0.02, Fin 0.11, Fin 0.051])) =
     map snd (map (\<lambda>w. (end_index w, magnitude w)) (wave_details (identify_wave_pattern
       [x, Fin 0.05, Fin (- 0.05), Fin 0.10, Fin (- 0.10), Fin 0.02, Fin 0.11, Fin 0.051])))"
    by (simp add: o_def)
  also have "\<dots> = [Minor, Minor, Significant, Significant, Major, Significant]"
    unfolding magnitudes_scan
    by (simp add: exceeds_def highest_exceeded_def upt_rec)
  finally show ?thesis using magnitudes_scan by blast
qed

section \<open>Trend and recommendation\<close>

lemma impulse_waves_scan:
  "impulse_waves (identify_wave_pattern series) =
   filter (\<lambda>w. type w = Impulse) (wave_details (identify_wave_pattern series))"
  using scan_inv_scan[of series] by (simp add: scan_inv_def Let_def identify_wave_pattern_def)

lemma corrective_waves_scan:
  "corrective_waves (identify_wave_pattern series) =
   filter (\<lambda>w. type w = Corrective) (wave_details (identify_wave_pattern series))"
  using scan_inv_scan[of series] by (simp add: scan_inv_def Let_def identify_wave_pattern_def)

lemma last_filter: "filter P xs \<noteq> [] \<Longrightarrow> P (last (filter P xs))"
proof -
  assume "filter P xs \<noteq> []"
  then have "last (filter P xs) \<in> set (filter P xs)" by (rule last_in_set)
  then show ?thesis by simp
qed

lemma price_trend_scan:
  "price_trend (identify_wave_pattern series) =
   (if impulse_waves (identify_wave_pattern series) = [] then Bearish else Bullish)"
  using last_filter[of "\<lambda>w. type w = Impulse" "wave_details (identify_wave_pattern series)"]
  by (simp add: price_trend_def impulse_waves_scan)

lemma scenario1_waves:
  "identify_wave_pattern scenario1 =
   \<lparr>impulse_waves =
      [\<lparr>type = Impulse, magnitude = Significant, start_index = 1, end_index = 2,
        percentage_change = Fin 5.88, label = ''Impulse 1''\<rparr>],
    corrective_waves =
      [\<lparr>type = Corrective, magnitude = Significant, start_index = 2, end_index = 3,
        percentage_change = Fin (- 8.33), label = ''Correction A''\<rparr>,
       \<lparr>type = Corrective, magnitude = Minor, start_index = 3, end_index = 4,
        percentage_change = Fin (- 4.04), label = ''Correction B''\<rparr>],
    wave_details =
      [\<lparr>type = Impulse, magnitude = Significant, start_index = 1, end_index = 2,
        percentage_change = Fin 5.88, label = ''Impulse 1''\<rparr>,
       \<lparr>type = Corrective, magnitude = Significant, start_index = 2, end_index = 3,
        percentage_change = Fin (- 8.33), label = ''Correction A''\<rparr>,
       \<lparr>type = Corrective, magnitude = Minor, start_index = 3, end_index = 4,
        percentage_change = Fin (- 4.04), label = ''Correction B''\<rparr>],
    wave_labels = [''Impulse 1'', ''Correction A'', ''Correction B'']\<rparr>"
  by (simp add: scenario1_def identify_wave_pattern_def scan_def init_state_def loop_body_def
      Let_def str_digits str_Suc0 chr_letters)

text \<open>
  C2. On every result of the scan the trend is Bullish exactly when the list of impulse
  waves is not empty, and Bearish exactly when no impulse wave was found; the analysis
  of a non-empty data frame reports that trend. The type of the most recent wave plays
  no part: in the example below the last wave is corrective and the trend is Bullish.
\<close>

theorem trend_bullish_iff_impulse:
  "(price_trend (identify_wave_pattern series) = Bullish) =
     (impulse_waves (identify_wave_pattern series) \<noteq> []) \<and>
   (price_trend (identify_wave_pattern series) = Bearish) =
     (length (impulse_waves (identify_wave_pattern series)) = 0) \<and>
   (df \<noteq> [] \<longrightarrow>
      map_sum id dominant_trend (interpret_elliot_waves (identify_wave_pattern series) df) =
      Inr (if impulse_waves (identify_wave_pattern series) = [] then Bearish else Bullish))"
  by (simp add: price_trend_scan interpret_elliot_waves_def Let_def)

theorem trend_bullish_iff_impulse_witness:
  "[last_row] \<noteq> [] \<and>
   map_sum id dominant_trend (interpret_elliot_waves (identify_wave_pattern scenario1) [last_row])
     = Inr Bullish \<and>
   type (last (wave_details (identify_wave_pattern scenario1))) = Corrective"
  using trend_bullish_iff_impulse[of scenario1 "[last_row]"]
  by (simp add: scenario1_waves)

lemma str_Sucs:
  "str (Suc (Suc 0)) = ''2''" "str (Suc (Suc (Suc 0))) = ''3''"
  "str (Suc (Suc (Suc (Suc 0)))) = ''4''" "str (Suc (Suc (Suc (Suc (Suc 0))))) = ''5''"
  using str_digits by (simp_all add: numeral_eq_Suc)

text \<open>
  C3. The recommendation follows the table of the specification, first match first:
  more impulse than corrective waves gives STRONG BUY under a Bullish trend and MODERATE
  BUY otherwise, more corrective than impulse waves gives HOLD/CAUTION, equal counts give
  NEUTRAL. It depends on the two lists through their lengths only, and the analysis of
  a non-empty data frame reports exactly this recommendation and reason.
\<close>

theorem recommendation_table:
  "(length iw > length cw \<and> tr = Bullish \<longrightarrow>
      get_investment_recommendation iw cw tr =
        (''STRONG BUY'', ''The current wave pattern suggests a strong upward momentum.'')) \<and>
   (length iw > length cw \<and> tr \<noteq> Bullish \<longrightarrow>
      get_investment_recommendation iw cw tr =
        (''MODERATE BUY'', ''The wave pattern indicates potential growth.'')) \<and>
   (length cw > length iw \<longrightarrow>
      get_investment_recommendation iw cw tr =
        (''HOLD/CAUTION'',
         ''The market shows more corrective patterns, suggesting potential volatility.'')) \<and>
   (length iw = length cw \<longrightarrow>
      get_investment_recommendation iw cw tr =
        (''NEUTRAL'', ''The wave patterns are relatively balanced.'')) \<and>
   (length iw = length iw' \<and> length cw = length cw' \<longrightarrow>
      get_investment_recommendation iw cw tr = get_investment_recommendation iw' cw' tr) \<and>
   (df \<noteq> [] \<longrightarrow>
      map_sum id (\<lambda>a. (recommendation a, recommendation_reason a)) (interpret_elliot_waves w df) =
      Inr (get_investment_recommendation (impulse_waves w) (corrective_waves w) (price_trend w)))"
  by (simp add: get_investment_recommendation_def interpret_elliot_waves_def Let_def)

theorem recommendation_table_witness:
  "fst (get_investment_recommendation [seg Impulse] [] Bullish) = ''STRONG BUY'' \<and>
   fst (get_investment_recommendation [seg Corrective] [] Bearish) = ''MODERATE BUY'' \<and>
   fst (get_investment_recommendation [] [seg Corrective] Bearish) = ''HOLD/CAUTION'' \<and>
   fst (get_investment_recommendation [seg Impulse] [seg Corrective] Bullish) = ''NEUTRAL'' \<and>
   get_investment_recommendation [seg Impulse] [] Bullish =
     get_investment_recommendation [seg Corrective] [] Bullish \<and>
   map_sum id (\<lambda>a. (recommendation a, recommendation_reason a))
     (interpret_elliot_waves (identify_wave_pattern scenario1) [last_row]) =
   Inr (''HOLD/CAUTION'',
        ''The market shows more corrective patterns, suggesting potential volatility.'')"
proof -
  have "fst (get_investment_recommendation [seg Impulse] [] Bullish) = ''STRONG BUY''"
    using recommendation_table[where iw = "[seg Impulse]" and cw = "[]" and tr = Bullish]
    by simp
  moreover have "fst (get_investment_recommendation [seg Corrective] [] Bearish) = ''MODERATE BUY''"
    using recommendation_table[where iw = "[seg Corrective]" and cw = "[]" and tr = Bearish]
    by simp
  moreover have "fst (get_investment_recommendation [] [seg Corrective] Bearish) = ''HOLD/CAUTION''"
    using recommendation_table[where iw = "[]" and cw = "[seg Corrective]" and tr = Bearish]
    by simp
  moreover have "fst (get_investment_recommendation [seg Impulse] [seg Corrective] Bullish) = ''NEUTRAL''"
    using recommendation_table[where iw = "[seg Impulse]" and cw = "[seg Corrective]" and tr = Bullish]
    by simp
  moreover have "get_investment_recommendation [seg Impulse] [] Bullish =
      get_investment_recommendation [seg Corrective] [] Bullish"
  proof -
    have "length [seg Impulse] = length [seg Corrective] \<and>
          length ([] :: wave_segment list) = length ([] :: wave_segment list) \<longrightarrow>
          get_investment_recommendation [seg Impulse] [] Bullish =
          get_investment_recommendation [seg Corrective] [] Bullish"
      using recommendation_table[where iw = "[seg Impulse]" and cw = "[]" and tr = Bullish
          and iw' = "[seg Corrective]" and cw' = "[]"]
      by blast
    then show ?thesis by simp
  qed
  moreover have "map_sum id (\<lambda>a. (recommendation a, recommendation_reason a))
     (interpret_elliot_waves (identify_wave_pattern scenario1) [last_row]) =
     Inr (''HOLD/CAUTION'',
        ''The market shows more corrective patterns, suggesting potential volatility.'')"
    using recommendation_table[where df = "[last_row]" and w = "identify_wave_pattern scenario1"
        and iw = "impulse_waves (identify_wave_pattern scenario1)"
        and cw = "corrective_waves (identify_wave_pattern scenario1)"]
    by (simp add: scenario1_waves)
  ultimately show ?thesis by blast
qed

text \<open>
  C10. On a result of the scan MODERATE BUY cannot come out: when the impulse waves
  outnumber the corrective ones, the impulse list is not empty and its last entry is an
  impulse wave, so the trend is Bullish and the first row of the table applies. The
  recommendation is STRONG BUY, HOLD/CAUTION or NEUTRAL, by the counts alone.
\<close>

theorem moderate_buy_unreachable:
  "fst (get_investment_recommendation (impulse_waves (identify_wave_pattern series))
          (corrective_waves (identify_wave_pattern series))
          (price_trend (identify_wave_pattern series)))
     \<in> {''STRONG BUY'', ''HOLD/CAUTION'', ''NEUTRAL''} \<and>
   fst (get_investment_recommendation (impulse_waves (identify_wave_pattern series))
          (corrective_waves (identify_wave_pattern series))
          (price_trend (identify_wave_pattern series))) \<noteq> ''MODERATE BUY'' \<and>
   (length (impulse_waves (identify_wave_pattern series)) >
      length (corrective_waves (identify_wave_pattern series)) \<longrightarrow>
    impulse_waves (identify_wave_pattern series) \<noteq> [] \<and>
    type (last (impulse_waves (identify_wave_pattern series))) = Impulse \<and>
    price_trend (identify_wave_pattern series) = Bullish) \<and>
   (df \<noteq> [] \<longrightarrow>
      map_sum id recommendation (interpret_elliot_waves (identify_wave_pattern series) df) =
      Inr (if length (impulse_waves (identify_wave_pattern series)) >
              length (corrective_waves (identify_wave_pattern series)) then ''STRONG BUY''
           else if length (corrective_waves (identify_wave_pattern series)) >
              length (impulse_waves (identify_wave_pattern series)) then ''HOLD/CAUTION''
           else ''NEUTRAL''))"
proof -
  let ?W = "identify_wave_pattern series"
  have ne: "length (impulse_waves ?W) > length (corrective_waves ?W) \<Longrightarrow>
      impulse_waves ?W \<noteq> []"
    by auto
  have last_imp: "length (impulse_waves ?W) > length (corrective_waves ?W) \<Longrightarrow>
      type (last (impulse_waves ?W)) = Impulse"
  proof -
    assume "length (impulse_waves ?W) > length (corrective_waves ?W)"
    then have "filter (\<lambda>w. type w = Impulse) (wave_details ?W) \<noteq> []"
      using ne by (simp add: impulse_waves_scan)
    then show ?thesis
      using last_filter[of "\<lambda>w. type w = Impulse" "wave_details ?W"]
      by (simp add: impulse_waves_scan)
  qed
  have bull: "length (impulse_waves ?W) > length (corrective_waves ?W) \<Longrightarrow>
      price_trend ?W = Bullish"
    by (auto simp: price_trend_scan)
  show ?thesis
    using bull last_imp
    by (auto simp: get_investment_recommendation_def interpret_elliot_waves_def Let_def)
qed

lemma rally_waves:
  "identify_wave_pattern rally =
   \<lparr>impulse_waves =
      [\<lparr>type = Impulse, magnitude = Major, start_index = 0, end_index = 1,
        percentage_change = Fin 12, label = ''Impulse 1''\<rparr>,
       \<lparr>type = Impulse, magnitude = Major, start_index = 1, end_index = 2,
        percentage_change = Fin 12, label = ''Impulse 2''\<rparr>],
    corrective_waves = [],
    wave_details =
      [\<lparr>type = Impulse, magnitude = Major, start_index = 0, end_index = 1,
        percentage_change = Fin 12, label = ''Impulse 1''\<rparr>,
       \<lparr>type = Impulse, magnitude = Major, start_index = 1, end_index = 2,
        percentage_change = Fin 12, label = ''Impulse 2''\<rparr>],
    wave_labels = [''Impulse 1'', ''Impulse 2'']\<rparr>"
  by (simp add: rally_def identify_wave_pattern_def scan_def init_state_def loop_body_def
      Let_def str_digits str_Suc0 str_Sucs chr_letters)

theorem moderate_buy_unreachable_witness:
  "length (impulse_waves (identify_wave_pattern rally)) >
     length (corrective_waves (identify_wave_pattern rally)) \<and>
   [last_row] \<noteq> [] \<and>
   price_trend (identify_wave_pattern rally) = Bullish \<and>
   map_sum id recommendation (interpret_elliot_waves (identify_wave_pattern rally) [last_row]) =
     Inr ''STRONG BUY''"
  using moderate_buy_unreachable[of rally "[last_row]"]
  by (simp add: rally_waves)

section \<open>Labels and runs\<close>

lemma run_length_pos: "ts \<noteq> [] \<Longrightarrow> 0 < run_length ts"
  by (cases ts rule: rev_cases) (simp_all add: run_length_snoc)

lemma label_nth:
  assumes "j < length (wave_details (identify_wave_pattern series))"
  shows "label (wave_details (identify_wave_pattern series) ! j) =
         run_label (type (wave_details (identify_wave_pattern series) ! j))
           (run_length (take (Suc j) (map type (wave_details (identify_wave_pattern series)))))"
proof -
  let ?ws = "wave_details (identify_wave_pattern series)"
  have "map label ?ws = expected_labels (map type ?ws)"
    using scan_inv_scan[of series] by (simp add: scan_inv_def Let_def identify_wave_pattern_def)
  then have "map label ?ws ! j = expected_labels (map type ?ws) ! j" by simp
  then show ?thesis using assms by (simp add: expected_labels_def)
qed

lemma final_state:
  "current_wave_type (scan series) =
     (if wave_details (identify_wave_pattern series) = [] then None
      else Some (last (map type (wave_details (identify_wave_pattern series))))) \<and>
   wave_count (scan series) =
     (if wave_details (identify_wave_pattern series) = [] then 0
      else run_length (map type (wave_details (identify_wave_pattern series))))"
  using scan_inv_scan[of series] by (simp add: scan_inv_def Let_def identify_wave_pattern_def)

lemma step_emit:
  assumes "exceeds (series ! i) Minor"
  shows "wave_count (loop_body series st i) = next_count st (wave_type_of (series ! i))"
    and "current_wave_type (loop_body series st i) = Some (wave_type_of (series ! i))"
    and "wave_details (result (loop_body series st i)) =
           wave_details (result st) @ [emitted series st i]"
    and "label (last (wave_details (result (loop_body series st i)))) =
           run_label (wave_type_of (series ! i)) (next_count st (wave_type_of (series ! i)))"
    and "label (last (wave_details (result (loop_body series st i)))) =
           code_label (wave_type_of (series ! i)) (next_count st (wave_type_of (series ! i)))"
  by (simp_all add: loop_body_emit[OF assms] Let_def emitted_def
      code_label_run_label[OF next_count_pos])

lemma run_label_values:
  "map (run_label Impulse) [1, 2, 3, 4, 5, 6, 7] =
     [''Impulse 1'', ''Impulse 2'', ''Impulse 3'', ''Impulse 4'', ''Impulse 5'',
      ''Impulse Ext'', ''Impulse Ext'']"
  "map (run_label Corrective) [1, 2, 3, 4, 5] =
     [''Correction A'', ''Correction B'', ''Correction C'', ''Correction Ext'',
      ''Correction Ext'']"
  by (simp_all add: run_label_def)

lemma run_label_ext:
  "5 < k \<Longrightarrow> run_label Impulse k = ''Impulse Ext''"
  "3 < k \<Longrightarrow> run_label Corrective k = ''Correction Ext''"
  by (simp_all add: run_label_def)

text \<open>
  C4. The labels follow the runs of the emitted waves. The label of the j-th emitted
  wave is the label of its type for the length of the run of same-type waves that ends
  at it: Impulse 1 to Impulse 5 and then Impulse Ext for an impulse run, Correction A,
  Correction B, Correction C and then Correction Ext for a corrective run. At each
  emitted wave whose type differs from \<open>current_wave_type\<close> the counter becomes 1 and the
  label is the first of the new type; at a wave of the same type the counter is
  incremented, also beyond the last numbered label, so that at the end of the scan it is
  the length of the last run.
\<close>

theorem labels_follow_runs:
  "wave_labels (identify_wave_pattern series) =
     map label (wave_details (identify_wave_pattern series)) \<and>
   (\<forall>j < length (wave_details (identify_wave_pattern series)).
      label (wave_details (identify_wave_pattern series) ! j) =
      run_label (type (wave_details (identify_wave_pattern series) ! j))
        (run_length (take (Suc j) (map type (wave_details (identify_wave_pattern series)))))) \<and>
   (wave_details (identify_wave_pattern series) \<noteq> [] \<longrightarrow>
      wave_count (scan series) =
        run_length (map type (wave_details (identify_wave_pattern series)))) \<and>
   (exceeds (series ! i) Minor \<and> current_wave_type st \<noteq> Some (wave_type_of (series ! i)) \<longrightarrow>
      wave_count (loop_body series st i) = 1 \<and>
      current_wave_type (loop_body series st i) = Some (wave_type_of (series ! i)) \<and>
      label (last (wave_details (result (loop_body series st i)))) =
        hd (run_labels (wave_type_of (series ! i)))) \<and>
   (exceeds (series ! i) Minor \<and> current_wave_type st = Some (wave_type_of (series ! i)) \<longrightarrow>
      wave_count (loop_body series st i) = wave_count st + 1 \<and>
      current_wave_type (loop_body series st i) = current_wave_type st \<and>
      label (last (wave_details (result (loop_body series st i)))) =
        run_label (wave_type_of (series ! i)) (wave_count st + 1)) \<and>
   map (run_label Impulse) [1, 2, 3, 4, 5, 6, 7] =
     [''Impulse 1'', ''Impulse 2'', ''Impulse 3'', ''Impulse 4'', ''Impulse 5'',
      ''Impulse Ext'', ''Impulse Ext''] \<and>
   map (run_label Corrective) [1, 2, 3, 4, 5] =
     [''Correction A'', ''Correction B'', ''Correction C'', ''Correction Ext'',
      ''Correction Ext''] \<and>
   (5 < k \<longrightarrow> run_label Impulse k = ''Impulse Ext'') \<and>
   (3 < k \<longrightarrow> run_label Corrective k = ''Correction Ext'')"
proof -
  let ?W = "identify_wave_pattern series"
  have a: "wave_labels ?W = map label (wave_details ?W)"
    using scan_inv_scan[of series] by (simp add: scan_inv_def Let_def identify_wave_pattern_def)
  have b: "\<forall>j < length (wave_details ?W).
      label (wave_details ?W ! j) =
      run_label (type (wave_details ?W ! j))
        (run_length (take (Suc j) (map type (wave_details ?W))))"
    using label_nth by blast
  have c: "wave_details ?W \<noteq> [] \<longrightarrow>
      wave_count (scan series) = run_length (map type (wave_details ?W))"
    using final_state[of series] by simp
  have d: "exceeds (series ! i) Minor \<and> current_wave_type st \<noteq> Some (wave_type_of (series ! i)) \<longrightarrow>
      wave_count (loop_body series st i) = 1 \<and>
      current_wave_type (loop_body series st i) = Some (wave_type_of (series ! i)) \<and>
      label (last (wave_details (result (loop_body series st i)))) =
        hd (run_labels (wave_type_of (series ! i)))"
    by (cases "wave_type_of (series ! i)")
      (auto simp: step_emit(1,2,4) next_count_def run_label_def)
  have e: "exceeds (series ! i) Minor \<and> current_wave_type st = Some (wave_type_of (series ! i)) \<longrightarrow>
      wave_count (loop_body series st i) = wave_count st + 1 \<and>
      current_wave_type (loop_body series st i) = current_wave_type st \<and>
      label (last (wave_details (result (loop_body series st i)))) =
        run_label (wave_type_of (series ! i)) (wave_count st + 1)"
    by (auto simp: step_emit(1,2,4) next_count_def)
  show ?thesis
    using a b c d e run_label_values run_label_ext by blast
qed

lemma long_run_waves:
  "wave_labels (identify_wave_pattern long_run) =
     [''Impulse 1'', ''Impulse 2'', ''Impulse 3'', ''Impulse 4'', ''Impulse 5'', ''Impulse Ext'',
      ''Correction A'', ''Correction B'', ''Correction C'', ''Correction Ext'', ''Impulse 1'']"
  "map type (wave_details (identify_wave_pattern long_run)) =
     [Impulse, Impulse, Impulse, Impulse, Impulse, Impulse,
      Corrective, Corrective, Corrective, Corrective, Impulse]"
  by (simp_all add: long_run_def identify_wave_pattern_def scan_def init_state_def loop_body_def
      Let_def str_digits str_Suc0 str_Sucs chr_letters)

theorem labels_follow_runs_witness:
  "5 < length (wave_details (identify_wave_pattern long_run)) \<and>
   label (wave_details (identify_wave_pattern long_run) ! 5) = ''Impulse Ext'' \<and>
   wave_details (identify_wave_pattern long_run) \<noteq> [] \<and>
   wave_count (scan long_run) = 1 \<and>
   exceeds (long_run ! 8) Minor \<and>
   current_wave_type (in_run Impulse 6) \<noteq> Some (wave_type_of (long_run ! 8)) \<and>
   wave_count (loop_body long_run (in_run Impulse 6) 8) = 1 \<and>
   label (last (wave_details (result (loop_body long_run (in_run Impulse 6) 8)))) =
     ''Correction A'' \<and>
   exceeds (long_run ! 9) Minor \<and>
   current_wave_type (in_run Corrective 3) = Some (wave_type_of (long_run ! 9)) \<and>
   wave_count (loop_body long_run (in_run Corrective 3) 9) = 4 \<and>
   label (last (wave_details (result (loop_body long_run (in_run Corrective 3) 9)))) =
     ''Correction Ext'' \<and>
   (5::nat) < 6 \<and> run_label Impulse 6 = ''Impulse Ext'' \<and>
   (3::nat) < 4 \<and> run_label Corrective 4 = ''Correction Ext''"
proof -
  let ?ws = "wave_details (identify_wave_pattern long_run)"
  note T1 = labels_follow_runs[where series = long_run and i = 8 and st = "in_run Impulse 6"
      and k = 6]
  note T2 = labels_follow_runs[where series = long_run and i = 9 and st = "in_run Corrective 3"
      and k = 4]
  have "length (map type ?ws) = 11" by (simp add: long_run_waves(2))
  then have len: "length ?ws = 11" by simp
  then have ne: "?ws \<noteq> []" by auto
  have ty5: "type (?ws ! 5) = Impulse"
    using nth_map[of 5 ?ws type] len by (simp add: long_run_waves(2))
  have "label (?ws ! 5) = run_label (type (?ws ! 5)) (run_length (take (Suc 5) (map type ?ws)))"
    using T1 len by simp
  then have l5: "label (?ws ! 5) = ''Impulse Ext''"
    by (simp add: ty5 long_run_waves(2) run_length_def run_label_def)
  have "wave_count (scan long_run) = run_length (map type ?ws)"
    using T1 ne by blast
  then have wc: "wave_count (scan long_run) = 1"
    by (simp add: long_run_waves(2) run_length_def)
  have e8: "exceeds (long_run ! 8) Minor" and t8: "wave_type_of (long_run ! 8) = Corrective"
    and e9: "exceeds (long_run ! 9) Minor" and t9: "wave_type_of (long_run ! 9) = Corrective"
    by (simp_all add: long_run_def exceeds_def wave_type_of_def)
  have c8: "current_wave_type (in_run Impulse 6) \<noteq> Some (wave_type_of (long_run ! 8))"
    by (simp add: t8 in_run_def)
  have c9: "current_wave_type (in_run Corrective 3) = Some (wave_type_of (long_run ! 9))"
    by (simp add: t9 in_run_def)
  have s8: "wave_count (loop_body long_run (in_run Impulse 6) 8) = 1 \<and>
      label (last (wave_details (result (loop_body long_run (in_run Impulse 6) 8)))) =
        ''Correction A''"
    using T1 e8 c8 by (simp add: t8)
  have "wave_count (loop_body long_run (in_run Corrective 3) 9) =
          wave_count (in_run Corrective 3) + 1 \<and>
      label (last (wave_details (result (loop_body long_run (in_run Corrective 3) 9)))) =
        run_label (wave_type_of (long_run ! 9)) (wave_count (in_run Corrective 3) + 1)"
    using T2 e9 c9 by blast
  then have s9: "wave_count (loop_body long_run (in_run Corrective 3) 9) = 4 \<and>
      label (last (wave_details (result (loop_body long_run (in_run Corrective 3) 9)))) =
        ''Correction Ext''"
    by (simp add: t9 in_run_def run_label_def)
  have x: "run_label Impulse 6 = ''Impulse Ext''" "run_label Corrective 4 = ''Correction Ext''"
    using T1 T2 by simp_all
  show ?thesis
    using len l5 ne wc e8 c8 s8 e9 c9 s9 x by simp
qed

section \<open>Skipped points\<close>

lemma skip_foldl:
  "(\<forall>j \<in> set js. \<not> exceeds (series ! j) Minor) \<Longrightarrow> foldl (loop_body series) st js = st"
  by (induction js) (simp_all add: loop_body_skip)

lemma values_scan:
  "map (\<lambda>w. (type w, magnitude w, percentage_change w)) (wave_details (identify_wave_pattern series)) =
   map (\<lambda>c. (wave_type_of c, highest_exceeded c, fmul c 100))
     (filter (\<lambda>c. exceeds c Minor) (tl series))"
proof -
  have "map (\<lambda>w. (type w, magnitude w, percentage_change w)) (wave_details (identify_wave_pattern series)) =
        map (\<lambda>(t, m, s, e, p). (t, m, p)) (map core (wave_details (identify_wave_pattern series)))"
    by (simp add: core_def o_def)
  also have "\<dots> = map (\<lambda>i. (wave_type_of (series ! i), highest_exceeded (series ! i),
                              fmul (series ! i) 100))
                    (filter (\<lambda>i. exceeds (series ! i) Minor) [1 ..< length series])"
    by (simp add: core_scan core_at_def o_def)
  also have "\<dots> = map (\<lambda>c. (wave_type_of c, highest_exceeded c, fmul c 100))
                    (filter (\<lambda>c. exceeds c Minor) (map ((!) series) [1 ..< length series]))"
    by (simp add: filter_map o_def)
  finally show ?thesis by (simp add: map_nth_tl)
qed

lemma content_zip:
  "map content ws = map (\<lambda>((t, m, p), l). (t, m, p, l))
     (zip (map (\<lambda>w. (type w, magnitude w, percentage_change w)) ws) (map label ws))"
  by (induction ws) (simp_all add: content_def)

lemma labels_by_types:
  "map label (wave_details (identify_wave_pattern series)) =
   expected_labels (map type (wave_details (identify_wave_pattern series)))"
  using scan_inv_scan[of series] by (simp add: scan_inv_def Let_def identify_wave_pattern_def)

lemma skipped_points_removed:
  "map (\<lambda>w. (type w, magnitude w, percentage_change w))
     (wave_details (identify_wave_pattern (x # filter (\<lambda>c. exceeds c Minor) xs))) =
   map (\<lambda>w. (type w, magnitude w, percentage_change w))
     (wave_details (identify_wave_pattern (x # xs)))"
  "map type (wave_details (identify_wave_pattern (x # filter (\<lambda>c. exceeds c Minor) xs))) =
   map type (wave_details (identify_wave_pattern (x # xs)))"
  by (simp_all add: values_scan types_scan)

text \<open>
  C5. An index whose change does not exceed the minor threshold in absolute value
  leaves the state of the scan as it is: no segment is added, and the current wave type
  and the counter are kept, over any number of such indices. A step changes the
  counter only by emitting a wave: by one for a wave of the current type, back to 1 for
  a wave of the other type. So the scan of a series and the scan of the same series
  with the skipped points removed emit the same waves (type, magnitude, percentage
  change and label; the indices differ) and end with the same wave type and counter.
\<close>

theorem skipped_points_keep_state:
  "(\<not> exceeds (series ! i) Minor \<longrightarrow> loop_body series st i = st) \<and>
   ((\<forall>j \<in> set js. \<not> exceeds (series ! j) Minor) \<longrightarrow> foldl (loop_body series) st js = st) \<and>
   (loop_body series st i = st \<or>
    (current_wave_type st = Some (wave_type_of (series ! i)) \<and>
     current_wave_type (loop_body series st i) = current_wave_type st \<and>
     wave_count (loop_body series st i) = wave_count st + 1) \<or>
    (current_wave_type st \<noteq> Some (wave_type_of (series ! i)) \<and>
     current_wave_type (loop_body series st i) = Some (wave_type_of (series ! i)) \<and>
     wave_count (loop_body series st i) = 1)) \<and>
   wave_labels (identify_wave_pattern (x # filter (\<lambda>c. exceeds c Minor) xs)) =
     wave_labels (identify_wave_pattern (x # xs)) \<and>
   map content (wave_details (identify_wave_pattern (x # filter (\<lambda>c. exceeds c Minor) xs))) =
     map content (wave_details (identify_wave_pattern (x # xs))) \<and>
   current_wave_type (scan (x # filter (\<lambda>c. exceeds c Minor) xs)) =
     current_wave_type (scan (x # xs)) \<and>
   wave_count (scan (x # filter (\<lambda>c. exceeds c Minor) xs)) = wave_count (scan (x # xs))"
proof -
  let ?kept = "x # filter (\<lambda>c. exceeds c Minor) xs"
  have a: "\<not> exceeds (series ! i) Minor \<longrightarrow> loop_body series st i = st"
    by (simp add: loop_body_skip)
  have b: "(\<forall>j \<in> set js. \<not> exceeds (series ! j) Minor) \<longrightarrow>
      foldl (loop_body series) st js = st"
    using skip_foldl by blast
  have c: "loop_body series st i = st \<or>
    (current_wave_type st = Some (wave_type_of (series ! i)) \<and>
     current_wave_type (loop_body series st i) = current_wave_type st \<and>
     wave_count (loop_body series st i) = wave_count st + 1) \<or>
    (current_wave_type st \<noteq> Some (wave_type_of (series ! i)) \<and>
     current_wave_type (loop_body series st i) = Some (wave_type_of (series ! i)) \<and>
     wave_count (loop_body series st i) = 1)"
  proof (cases "exceeds (series ! i) Minor")
    case True
    then show ?thesis by (auto simp: step_emit(1,2) next_count_def)
  next
    case False
    then show ?thesis by (simp add: loop_body_skip)
  qed
  have ty: "map type (wave_details (identify_wave_pattern ?kept)) =
      map type (wave_details (identify_wave_pattern (x # xs)))"
    by (rule skipped_points_removed(2))
  have lab: "map label (wave_details (identify_wave_pattern ?kept)) =
      map label (wave_details (identify_wave_pattern (x # xs)))"
    by (simp only: labels_by_types ty)
  have d: "wave_labels (identify_wave_pattern ?kept) = wave_labels (identify_wave_pattern (x # xs))"
    by (simp only: labels_scan ty)
  have e: "map content (wave_details (identify_wave_pattern ?kept)) =
      map content (wave_details (identify_wave_pattern (x # xs)))"
    by (simp only: content_zip lab skipped_points_removed(1))
  have nil: "(wave_details (identify_wave_pattern ?kept) = []) =
      (wave_details (identify_wave_pattern (x # xs)) = [])"
    using ty by (metis map_is_Nil_conv)
  have f: "current_wave_type (scan ?kept) = current_wave_type (scan (x # xs))"
    and g: "wave_count (scan ?kept) = wave_count (scan (x # xs))"
    using final_state[of ?kept] final_state[of "x # xs"] nil ty by simp_all
  show ?thesis using a b c d e f g by blast
qed

theorem skipped_points_keep_state_witness:
  "\<not> exceeds (long_run ! 3) Minor \<and> \<not> exceeds (long_run ! 10) Minor \<and>
   loop_body long_run (in_run Impulse 2) 3 = in_run Impulse 2 \<and>
   foldl (loop_body long_run) (in_run Impulse 2) [3, 10] = in_run Impulse 2"
proof -
  note T = skipped_points_keep_state[where series = long_run and i = 3
      and st = "in_run Impulse 2" and js = "[3, 10]"]
  have h: "\<not> exceeds (long_run ! 3) Minor" "\<not> exceeds (long_run ! 10) Minor"
    by (simp_all add: long_run_def exceeds_def)
  then have "\<forall>j \<in> set [3, 10]. \<not> exceeds (long_run ! j) Minor" by simp
  then show ?thesis using T h by blast
qed

section \<open>Labels of corrective waves\<close>

lemma dip_scan:
  "wave_details (identify_wave_pattern dip) =
     [\<lparr>type = Corrective, magnitude = Minor, start_index = 0, end_index = 1,
       percentage_change = Fin (- 3), label = ''Correction A''\<rparr>]"
  "wave_count (scan dip) = 1"
  by (simp_all add: dip_def identify_wave_pattern_def scan_def init_state_def loop_body_def
      Let_def chr_letters)

text \<open>
  C9 as stated fails: the label of a corrective wave is not the letter alone. A single
  move of -3% gives one corrective wave with counter 1, and its label is
  \<open>Correction A\<close>, not \<open>A\<close>.
\<close>

theorem corrective_label_not_single_letter:
  "type (hd (wave_details (identify_wave_pattern dip))) = Corrective \<and>
   wave_count (scan dip) = 1 \<and>
   label (hd (wave_details (identify_wave_pattern dip))) = ''Correction A'' \<and>
   label (hd (wave_details (identify_wave_pattern dip))) \<noteq> [chr (64 + wave_count (scan dip))]"
  by (simp add: dip_scan)

lemma code_label_corrective:
  "0 < k \<Longrightarrow> k \<le> 3 \<Longrightarrow>
   code_label Corrective k = ''Correction '' @ [chr (64 + k)] \<and>
   code_label Corrective k \<in> {''Correction A'', ''Correction B'', ''Correction C''}"
proof -
  assume "0 < k" "k \<le> 3"
  then consider "k = 1" | "k = 2" | "k = 3" by linarith
  then show ?thesis
    by cases (simp_all add: code_label_def chr_letters)
qed

text \<open>
  C9, amended. For every emitted corrective wave whose counter is at most 3, the label
  is the word \<open>Correction\<close>, a space and the letter \<open>chr(64 + counter)\<close>: Correction A,
  Correction B or Correction C. This holds at each step of the loop, from any state,
  and for each wave of a result, where the counter is the length of the run that ends
  at the wave.
\<close>

theorem corrective_label_prefixed:
  "(exceeds (series ! i) Minor \<and> wave_type_of (series ! i) = Corrective \<and>
    wave_count (loop_body series st i) \<le> 3 \<longrightarrow>
      label (last (wave_details (result (loop_body series st i)))) =
        ''Correction '' @ [chr (64 + wave_count (loop_body series st i))] \<and>
      label (last (wave_details (result (loop_body series st i)))) \<in>
        {''Correction A'', ''Correction B'', ''Correction C''}) \<and>
   (\<forall>j < length (wave_details (identify_wave_pattern series)).
      type (wave_details (identify_wave_pattern series) ! j) = Corrective \<and>
      run_length (take (Suc j) (map type (wave_details (identify_wave_pattern series)))) \<le> 3 \<longrightarrow>
      label (wave_details (identify_wave_pattern series) ! j) =
        ''Correction '' @
        [chr (64 + run_length (take (Suc j) (map type (wave_details (identify_wave_pattern series)))))])"
proof -
  let ?ws = "wave_details (identify_wave_pattern series)"
  have a: "exceeds (series ! i) Minor \<and> wave_type_of (series ! i) = Corrective \<and>
    wave_count (loop_body series st i) \<le> 3 \<longrightarrow>
      label (last (wave_details (result (loop_body series st i)))) =
        ''Correction '' @ [chr (64 + wave_count (loop_body series st i))] \<and>
      label (last (wave_details (result (loop_body series st i)))) \<in>
        {''Correction A'', ''Correction B'', ''Correction C''}"
  proof (intro impI, elim conjE)
    assume e: "exceeds (series ! i) Minor" and t: "wave_type_of (series ! i) = Corrective"
      and k: "wave_count (loop_body series st i) \<le> 3"
    have k3: "next_count st Corrective \<le> 3" using k by (simp add: step_emit(1)[OF e] t)
    show "label (last (wave_details (result (loop_body series st i)))) =
        ''Correction '' @ [chr (64 + wave_count (loop_body series st i))] \<and>
      label (last (wave_details (result (loop_body series st i)))) \<in>
        {''Correction A'', ''Correction B'', ''Correction C''}"
      unfolding step_emit(1)[OF e] step_emit(5)[OF e] t
      by (rule code_label_corrective[OF next_count_pos k3])
  qed
  have b: "\<forall>j < length ?ws.
      type (?ws ! j) = Corrective \<and> run_length (take (Suc j) (map type ?ws)) \<le> 3 \<longrightarrow>
      label (?ws ! j) = ''Correction '' @ [chr (64 + run_length (take (Suc j) (map type ?ws)))]"
  proof (intro allI impI, elim conjE)
    fix j
    assume j: "j < length ?ws" and t: "type (?ws ! j) = Corrective"
      and k: "run_length (take (Suc j) (map type ?ws)) \<le> 3"
    have "take (Suc j) (map type ?ws) \<noteq> []" using j by auto
    then have pos: "0 < run_length (take (Suc j) (map type ?ws))" by (rule run_length_pos)
    have "label (?ws ! j) = run_label Corrective (run_length (take (Suc j) (map type ?ws)))"
      using label_nth[OF j] t by simp
    also have "\<dots> = code_label Corrective (run_length (take (Suc j) (map type ?ws)))"
      using code_label_run_label[OF pos] by simp
    finally show "label (?ws ! j) =
        ''Correction '' @ [chr (64 + run_length (take (Suc j) (map type ?ws)))]"
      using code_label_corrective[OF pos k] by simp
  qed
  show ?thesis using a b by blast
qed

theorem corrective_label_prefixed_witness:
  "exceeds (long_run ! 9) Minor \<and> wave_type_of (long_run ! 9) = Corrective \<and>
   wave_count (loop_body long_run (in_run Corrective 1) 9) \<le> 3 \<and>
   label (last (wave_details (result (loop_body long_run (in_run Corrective 1) 9)))) =
     ''Correction '' @ [chr (64 + wave_count (loop_body long_run (in_run Corrective 1) 9))] \<and>
   7 < length (wave_details (identify_wave_pattern long_run)) \<and>
   type (wave_details (identify_wave_pattern long_run) ! 7) = Corrective \<and>
   run_length (take (Suc 7) (map type (wave_details (identify_wave_pattern long_run)))) \<le> 3 \<and>
   label (wave_details (identify_wave_pattern long_run) ! 7) = ''Correction B''"
proof -
  let ?ws = "wave_details (identify_wave_pattern long_run)"
  note T = corrective_label_prefixed[where series = long_run and i = 9
      and st = "in_run Corrective 1"]
  have e: "exceeds (long_run ! 9) Minor" and t: "wave_type_of (long_run ! 9) = Corrective"
    by (simp_all add: long_run_def exceeds_def wave_type_of_def)
  have k: "wave_count (loop_body long_run (in_run Corrective 1) 9) \<le> 3"
    by (simp add: step_emit(1)[OF e] t next_count_def in_run_def)
  have s: "label (last (wave_details (result (loop_body long_run (in_run Corrective 1) 9)))) =
     ''Correction '' @ [chr (64 + wave_count (loop_body long_run (in_run Corrective 1) 9))]"
    using T e t k by blast
  have "length (map type ?ws) = 11" by (simp add: long_run_waves(2))
  then have len: "7 < length ?ws" by simp
  have ty: "type (?ws ! 7) = Corrective"
    using nth_map[of 7 ?ws type] len by (simp add: long_run_waves(2))
  have rl: "run_length (take (Suc 7) (map type ?ws)) = 2"
    by (simp add: long_run_waves(2) run_length_def)
  have "label (?ws ! 7) =
      ''Correction '' @ [chr (64 + run_length (take (Suc 7) (map type ?ws)))]"
    using T len ty rl by simp
  then have l: "label (?ws ! 7) = ''Correction B''"
    unfolding rl by (simp add: chr_letters)
  show ?thesis using e t k s len ty rl l by simp
qed

section \<open>The candle stage\<close>

lemma convertible_the:
  "convertible cv t \<Longrightarrow> cv t \<noteq> None \<and> the (cv t) \<noteq> NaT"
  by (auto simp: convertible_def split: option.splits datetime.splits)

lemma dropna_rows:
  assumes "0 < n" "n \<le> length prices"
    and conv: "list_all (\<lambda>p. convertible cv (fst p)) prices"
  shows "dropna (map (\<lambda>i. \<lparr>timestamp = the (cv (fst (prices ! i))),
                                close = map snd prices ! i,
                                open = (if i = 0 then NaN else Fin (map snd prices ! (i - 1))),
                                high = Max (set (rolling_window 4 (map snd prices) i)),
                                low = Min (set (rolling_window 4 (map snd prices) i))\<rparr>)
                         [0 ..< n]) =
         map (candle_at cv prices) [1 ..< n]"
proof -
  let ?g = "\<lambda>i. \<lparr>timestamp = the (cv (fst (prices ! i))), close = map snd prices ! i,
       open = (if i = 0 then NaN else Fin (map snd prices ! (i - 1))),
       high = Max (set (rolling_window 4 (map snd prices) i)),
       low = Min (set (rolling_window 4 (map snd prices) i))\<rparr>"
  have split: "[0 ..< n] = 0 # [1 ..< n]"
    using assms(1) by (simp add: upt_conv_Cons)
  have keep: "\<And>i. i \<in> set [1 ..< n] \<Longrightarrow> ?g i = candle_at cv prices i"
    using assms(2) by (auto simp: candle_at_def)
  have rest: "map ?g [1 ..< n] = map (candle_at cv prices) [1 ..< n]"
    using keep by (rule map_cong[OF refl])
  have "\<And>i. i \<in> set [1 ..< n] \<Longrightarrow> the (cv (fst (prices ! i))) \<noteq> NaT"
  proof -
    fix i
    assume "i \<in> set [1 ..< n]"
    then have "i < length prices" using assms(2) by simp
    then have "convertible cv (fst (prices ! i))"
      using conv by (simp add: list_all_length)
    then show "the (cv (fst (prices ! i))) \<noteq> NaT" by (simp add: convertible_the)
  qed
  then have kept: "dropna (map (candle_at cv prices) [1 ..< n]) = map (candle_at cv prices) [1 ..< n]"
    by (simp add: dropna_def candle_at_def filter_map o_def)
  have "dropna (map ?g [0 ..< n]) = dropna (?g 0 # map ?g [1 ..< n])"
    by (simp only: split list.map)
  also have "\<dots> = dropna (map ?g [1 ..< n])"
    by (simp add: dropna_def)
  also have "\<dots> = map (candle_at cv prices) [1 ..< n]"
    by (simp only: rest kept)
  finally show ?thesis .
qed

lemma no_conversion_error:
  "list_all (\<lambda>p. convertible cv (fst p)) prices \<Longrightarrow>
   \<not> list_ex (\<lambda>p. cv (fst p) = None) prices"
  by (auto simp: list_all_iff list_ex_iff convertible_the)

lemma get_crypto_candles_Some:
  assumes "list_all (\<lambda>p. convertible cv (fst p)) prices"
  shows "get_crypto_candles cv (Some prices) =
     (if prices = [] then Inl (CryptoAnalysisError Unable_to_fetch_data)
      else if length prices < 2 then Inl (CryptoAnalysisError Insufficient_data_points)
      else if length prices < 3 then Inl (CryptoAnalysisError Insufficient_processed_data_points)
      else Inr (map (candle_at cv prices) [1 ..< length prices]))"
proof (cases "length prices < 2")
  case True
  then show ?thesis by (auto simp: get_crypto_candles_def)
next
  case False
  then have "0 < length prices" by linarith
  then have "dropna (map (\<lambda>i. \<lparr>timestamp = the (cv (fst (prices ! i))),
                                close = map snd prices ! i,
                                open = (if i = 0 then NaN else Fin (map snd prices ! (i - 1))),
                                high = Max (set (rolling_window 4 (map snd prices) i)),
                                low = Min (set (rolling_window 4 (map snd prices) i))\<rparr>)
                         [0 ..< length prices]) =
         map (candle_at cv prices) [1 ..< length prices]"
    using assms by (intro dropna_rows) simp_all
  moreover have "prices \<noteq> []" using False by auto
  ultimately show ?thesis using False no_conversion_error[OF assms]
    by (auto simp: get_crypto_candles_def Let_def)
qed

lemma get_crypto_candles_out_of_bounds:
  "2 \<le> length prices \<Longrightarrow> list_ex (\<lambda>p. cv (fst p) = None) prices \<Longrightarrow>
   get_crypto_candles cv (Some prices) = Inl (CryptoAnalysisError Out_of_bounds_datetime)"
  by (auto simp: get_crypto_candles_def)

lemma candle_columns:
  "map close (map (candle_at cv prices) [1 ..< length prices]) = tl (map snd prices)"
  "map timestamp (map (candle_at cv prices) [1 ..< length prices]) =
     tl (map (\<lambda>p. the (cv (fst p))) prices)"
  "map open (map (candle_at cv prices) [1 ..< length prices]) = map Fin (butlast (map snd prices))"
proof -
  have "map close (map (candle_at cv prices) [1 ..< length prices]) =
        map ((!) (map snd prices)) [Suc 0 ..< length (map snd prices)]"
    by (simp add: candle_at_def)
  then show "map close (map (candle_at cv prices) [1 ..< length prices]) = tl (map snd prices)"
    by (simp only: map_nth_tl)
  have "map timestamp (map (candle_at cv prices) [1 ..< length prices]) =
        map ((!) (map (\<lambda>p. the (cv (fst p))) prices))
          [Suc 0 ..< length (map (\<lambda>p. the (cv (fst p))) prices)]"
    by (simp add: candle_at_def)
  then show "map timestamp (map (candle_at cv prices) [1 ..< length prices]) =
      tl (map (\<lambda>p. the (cv (fst p))) prices)"
    by (simp only: map_nth_tl)
  show "map open (map (candle_at cv prices) [1 ..< length prices]) =
        map Fin (butlast (map snd prices))"
  proof (rule nth_equalityI)
    show "length (map open (map (candle_at cv prices) [1 ..< length prices])) =
          length (map Fin (butlast (map snd prices)))"
      by simp
  next
    fix i
    assume "i < length (map open (map (candle_at cv prices) [1 ..< length prices]))"
    then have i: "i < length prices - 1" by simp
    then show "map open (map (candle_at cv prices) [1 ..< length prices]) ! i =
               map Fin (butlast (map snd prices)) ! i"
      by (simp add: candle_at_def nth_butlast)
  qed
qed

text \<open>
  C7. The candle stage drops the first point, which has no open value, and keeps the
  others in order: the candle of point i has the converted timestamp and the close of
  point i, and the close of point i - 1 as its open. On a non-empty series of n points
  whose timestamps are all convertible it fails with one of the two insufficient-data
  errors exactly when fewer than 2 candles remain (n - 1 < 2), and returns the n - 1
  candles otherwise. When the conversion of a timestamp raises, a series of 2 or more
  points fails with the error of the conversion instead. An absent or empty price list
  never reaches the candle stage: the retrieval step rejects it as unable to fetch data.
\<close>

theorem candles_drop_first_point:
  "get_crypto_candles cv None = Inl (CryptoAnalysisError Unable_to_fetch_data) \<and>
   get_crypto_candles cv (Some []) = Inl (CryptoAnalysisError Unable_to_fetch_data) \<and>
   (prices \<noteq> [] \<and> list_all (\<lambda>p. convertible cv (fst p)) prices \<longrightarrow>
      (get_crypto_candles cv (Some prices) \<in>
         {Inl (CryptoAnalysisError Insufficient_data_points),
          Inl (CryptoAnalysisError Insufficient_processed_data_points)})
        = (length prices - 1 < 2) \<and>
      (\<not> length prices - 1 < 2 \<longrightarrow>
         map_sum id length (get_crypto_candles cv (Some prices)) = Inr (length prices - 1) \<and>
         map_sum id (map timestamp) (get_crypto_candles cv (Some prices)) =
           Inr (tl (map (\<lambda>p. the (cv (fst p))) prices)) \<and>
         map_sum id (map close) (get_crypto_candles cv (Some prices)) = Inr (tl (map snd prices)) \<and>
         map_sum id (map open) (get_crypto_candles cv (Some prices)) =
           Inr (map Fin (butlast (map snd prices))) \<and>
         map_sum id (map high) (get_crypto_candles cv (Some prices)) =
           Inr (map (\<lambda>i. Max (set (rolling_window 4 (map snd prices) i))) [1 ..< length prices]) \<and>
         map_sum id (map low) (get_crypto_candles cv (Some prices)) =
           Inr (map (\<lambda>i. Min (set (rolling_window 4 (map snd prices) i))) [1 ..< length prices]))) \<and>
   (2 \<le> length prices \<and> list_ex (\<lambda>p. cv (fst p) = None) prices \<longrightarrow>
      get_crypto_candles cv (Some prices) = Inl (CryptoAnalysisError Out_of_bounds_datetime))"
proof -
  have a: "get_crypto_candles cv None = Inl (CryptoAnalysisError Unable_to_fetch_data)"
    by (simp add: get_crypto_candles_def)
  have b: "get_crypto_candles cv (Some []) = Inl (CryptoAnalysisError Unable_to_fetch_data)"
    by (simp add: get_crypto_candles_def)
  have c: "prices \<noteq> [] \<Longrightarrow> list_all (\<lambda>p. convertible cv (fst p)) prices \<Longrightarrow>
      (get_crypto_candles cv (Some prices) \<in>
         {Inl (CryptoAnalysisError Insufficient_data_points),
          Inl (CryptoAnalysisError Insufficient_processed_data_points)})
        = (length prices - 1 < 2)"
    by (auto simp: get_crypto_candles_Some)
  have d: "list_all (\<lambda>p. convertible cv (fst p)) prices \<Longrightarrow> \<not> length prices - 1 < 2 \<Longrightarrow>
      get_crypto_candles cv (Some prices) = Inr (map (candle_at cv prices) [1 ..< length prices])"
    by (auto simp: get_crypto_candles_Some)
  have e: "list_all (\<lambda>p. convertible cv (fst p)) prices \<Longrightarrow> \<not> length prices - 1 < 2 \<Longrightarrow>
         map_sum id length (get_crypto_candles cv (Some prices)) = Inr (length prices - 1) \<and>
         map_sum id (map timestamp) (get_crypto_candles cv (Some prices)) =
           Inr (tl (map (\<lambda>p. the (cv (fst p))) prices)) \<and>
         map_sum id (map close) (get_crypto_candles cv (Some prices)) = Inr (tl (map snd prices)) \<and>
         map_sum id (map open) (get_crypto_candles cv (Some prices)) =
           Inr (map Fin (butlast (map snd prices))) \<and>
         map_sum id (map high) (get_crypto_candles cv (Some prices)) =
           Inr (map (\<lambda>i. Max (set (rolling_window 4 (map snd prices) i))) [1 ..< length prices]) \<and>
         map_sum id (map low) (get_crypto_candles cv (Some prices)) =
           Inr (map (\<lambda>i. Min (set (rolling_window 4 (map snd prices) i))) [1 ..< length prices])"
    using candle_columns[of cv prices]
    by (simp add: d) (simp add: candle_at_def)
  have f: "2 \<le> length prices \<and> list_ex (\<lambda>p. cv (fst p) = None) prices \<longrightarrow>
      get_crypto_candles cv (Some prices) = Inl (CryptoAnalysisError Out_of_bounds_datetime)"
    using get_crypto_candles_out_of_bounds by blast
  show ?thesis using a b c e f by blast
qed

lemma to_datetime_ms_small:
  "to_datetime_ms 0 = Some (Datetime 0)" "to_datetime_ms 1 = Some (Datetime 1)"
  "to_datetime_ms 2 = Some (Datetime 2)" "to_datetime_ms 10000000000000000000 = None"
  by (simp_all add: to_datetime_ms_def)

theorem candles_drop_first_point_witness:
  "two_points \<noteq> [] \<and> list_all (\<lambda>p. convertible to_datetime_ms (fst p)) two_points \<and>
   length two_points - 1 < 2 \<and>
   get_crypto_candles to_datetime_ms (Some two_points) \<in>
     {Inl (CryptoAnalysisError Insufficient_data_points),
      Inl (CryptoAnalysisError Insufficient_processed_data_points)} \<and>
   three_points \<noteq> [] \<and> list_all (\<lambda>p. convertible to_datetime_ms (fst p)) three_points \<and>
   \<not> length three_points - 1 < 2 \<and>
   map_sum id length (get_crypto_candles to_datetime_ms (Some three_points)) = Inr 2 \<and>
   map_sum id (map timestamp) (get_crypto_candles to_datetime_ms (Some three_points)) =
     Inr [Datetime 1, Datetime 2] \<and>
   map_sum id (map close) (get_crypto_candles to_datetime_ms (Some three_points)) =
     Inr [102, 108] \<and>
   map_sum id (map open) (get_crypto_candles to_datetime_ms (Some three_points)) =
     Inr [Fin 100, Fin 102] \<and>
   2 \<le> length late_points \<and> list_ex (\<lambda>p. to_datetime_ms (fst p) = None) late_points \<and>
   get_crypto_candles to_datetime_ms (Some late_points) =
     Inl (CryptoAnalysisError Out_of_bounds_datetime)"
proof -
  note T2 = candles_drop_first_point[where prices = two_points and cv = to_datetime_ms]
  note T3 = candles_drop_first_point[where prices = three_points and cv = to_datetime_ms]
  note TL = candles_drop_first_point[where prices = late_points and cv = to_datetime_ms]
  have h2: "two_points \<noteq> []" "list_all (\<lambda>p. convertible to_datetime_ms (fst p)) two_points"
    "length two_points - 1 < 2"
    by (simp_all add: two_points_def convertible_def to_datetime_ms_small)
  have h3: "three_points \<noteq> []" "list_all (\<lambda>p. convertible to_datetime_ms (fst p)) three_points"
    "\<not> length three_points - 1 < 2"
    by (simp_all add: three_points_def convertible_def to_datetime_ms_small)
  have hl: "2 \<le> length late_points" "list_ex (\<lambda>p. to_datetime_ms (fst p) = None) late_points"
    by (simp_all add: late_points_def to_datetime_ms_small)
  have c2: "get_crypto_candles to_datetime_ms (Some two_points) \<in>
     {Inl (CryptoAnalysisError Insufficient_data_points),
      Inl (CryptoAnalysisError Insufficient_processed_data_points)}"
    using T2 h2 by blast
  have "map_sum id length (get_crypto_candles to_datetime_ms (Some three_points)) =
          Inr (length three_points - 1) \<and>
        map_sum id (map timestamp) (get_crypto_candles to_datetime_ms (Some three_points)) =
          Inr (tl (map (\<lambda>p. the (to_datetime_ms (fst p))) three_points)) \<and>
        map_sum id (map close) (get_crypto_candles to_datetime_ms (Some three_points)) =
          Inr (tl (map snd three_points)) \<and>
        map_sum id (map open) (get_crypto_candles to_datetime_ms (Some three_points)) =
          Inr (map Fin (butlast (map snd three_points)))"
    using T3 h3 by blast
  then have c3: "map_sum id length (get_crypto_candles to_datetime_ms (Some three_points)) = Inr 2 \<and>
      map_sum id (map timestamp) (get_crypto_candles to_datetime_ms (Some three_points)) =
        Inr [Datetime 1, Datetime 2] \<and>
      map_sum id (map close) (get_crypto_candles to_datetime_ms (Some three_points)) =
        Inr [102, 108] \<and>
      map_sum id (map open) (get_crypto_candles to_datetime_ms (Some three_points)) =
        Inr [Fin 100, Fin 102]"
    by (simp add: three_points_def to_datetime_ms_small)
  have cl: "get_crypto_candles to_datetime_ms (Some late_points) =
     Inl (CryptoAnalysisError Out_of_bounds_datetime)"
    using TL hl by blast
  show ?thesis using h2 h3 hl c2 c3 cl by blast
qed

section \<open>Two price points\<close>

lemma identify_short:
  "identify_wave_pattern [] = empty_waves" "identify_wave_pattern [c] = empty_waves"
  by (simp_all add: identify_wave_pattern_def scan_def init_state_def empty_waves_def)

lemma two_points_fail:
  "get_crypto_candles cv (Some [p0, p1]) =
     Inl (CryptoAnalysisError
       (if cv (fst p0) = None \<or> cv (fst p1) = None then Out_of_bounds_datetime
        else Insufficient_processed_data_points))"
  by (simp add: get_crypto_candles_def Let_def dropna_def upt_rec)

text \<open>
  C6 as stated fails: a series of exactly 2 price points, with timestamps that convert,
  does not pass the candle stage. One candle remains after the first point is dropped,
  and the stage requires two.
\<close>

theorem two_points_give_error:
  "length two_points = 2 \<and>
   get_crypto_candles to_datetime_ms (Some two_points) =
     Inl (CryptoAnalysisError Insufficient_processed_data_points)"
  by (simp add: two_points_fail two_points_def to_datetime_ms_small)

text \<open>
  C6, amended. Every series of exactly 2 price points is rejected by the candle stage:
  with the error for insufficient processed data points when both timestamps can be
  converted, and with the error of the conversion when one of them cannot. So no
  indicator row or wave set is produced from it. The later stages themselves accept a
  single candle: \<open>detect_elliot_waves\<close> gives one indicator row, with no price change,
  percentage change or RSI value, and the scan of a series with no usable entry (empty,
  or the leading undefined entry alone) gives the empty wave set, for which both counts
  are 0, the trend is Bearish and the recommendation is NEUTRAL.
\<close>

theorem two_points_rejected_single_candle_accepted:
  "get_crypto_candles cv (Some [p0, p1]) =
     Inl (CryptoAnalysisError
       (if cv (fst p0) = None \<or> cv (fst p1) = None then Out_of_bounds_datetime
        else Insufficient_processed_data_points)) \<and>
   identify_wave_pattern [] = empty_waves \<and>
   identify_wave_pattern [c] = empty_waves \<and>
   fst (detect_elliot_waves [cd]) = empty_waves \<and>
   length (snd (detect_elliot_waves [cd])) = 1 \<and>
   map close (snd (detect_elliot_waves [cd])) = [close cd] \<and>
   map price_change (snd (detect_elliot_waves [cd])) = [NaN] \<and>
   map pct_change (snd (detect_elliot_waves [cd])) = [NaN] \<and>
   map rsi (snd (detect_elliot_waves [cd])) = [NaN] \<and>
   interpret_elliot_waves empty_waves [row] =
     Inr \<lparr>total_waves = 0, impulse_waves_count = 0, corrective_waves_count = 0,
          dominant_trend = Bearish, current_price = close row,
          recommendation = ''NEUTRAL'',
          recommendation_reason = ''The wave patterns are relatively balanced.''\<rparr>"
proof -
  have r: "rsi_of [close cd] 0 = NaN"
    by (simp add: rsi_of_def rolling_mean_def fsub_def)
  have d: "detect_elliot_waves [cd] =
      (empty_waves, [candle.extend cd (indicator_row.fields NaN NaN NaN)])"
    by (simp add: detect_elliot_waves_def Let_def diff_def pct_change_of_def r identify_short
        candle.defs indicator_row.defs)
  have e: "interpret_elliot_waves empty_waves [row] =
     Inr \<lparr>total_waves = 0, impulse_waves_count = 0, corrective_waves_count = 0,
          dominant_trend = Bearish, current_price = close row,
          recommendation = ''NEUTRAL'',
          recommendation_reason = ''The wave patterns are relatively balanced.''\<rparr>"
    by (simp add: interpret_elliot_waves_def empty_waves_def price_trend_def
        get_investment_recommendation_def)
  show ?thesis
    using two_points_fail[of cv p0 p1] e identify_short
    by (simp add: d candle.defs indicator_row.defs)
qed

section \<open>The RSI column\<close>

lemma length_diff: "length (diff xs) = length xs"
  by (simp add: diff_def)

lemma diff_nth:
  "i < length xs \<Longrightarrow> diff xs ! i = (if i = 0 then NaN else Fin (xs ! i - xs ! (i - 1)))"
  by (simp add: diff_def fsub_def)

lemma gain_nth: "i < length xs \<Longrightarrow> gain_col (diff xs) ! i = Fin (gain_at xs i)"
  by (simp add: gain_col_def length_diff diff_nth gain_at_def)

lemma loss_nth: "i < length xs \<Longrightarrow> loss_col (diff xs) ! i = Fin (loss_at xs i)"
  by (simp add: loss_col_def length_diff diff_nth loss_at_def)

lemma rolling_mean_early: "i < 13 \<Longrightarrow> rolling_mean 14 col i = NaN"
  by (simp add: rolling_mean_def)

lemma rolling_mean_fin:
  assumes "13 \<le> i" "i < n" "\<And>j. j < n \<Longrightarrow> col ! j = Fin (f j)"
  shows "rolling_mean 14 col i = Fin (sum_list (map f [i - 13 ..< i + 1]) / 14)"
proof -
  have win: "rolling_window 14 col i = map (\<lambda>j. Fin (f j)) [i - 13 ..< i + 1]"
    using assms by (simp add: rolling_window_def)
  have "list_all is_fin (map (\<lambda>j. Fin (f j)) [i - 13 ..< i + 1])"
    by (simp add: list_all_iff)
  moreover have "map the_fin (map (\<lambda>j. Fin (f j)) [i - 13 ..< i + 1]) = map f [i - 13 ..< i + 1]"
    by (simp add: o_def)
  ultimately show ?thesis
    using assms(1) by (simp add: rolling_mean_def win Let_def del: map_map)
qed

lemma gain_mean:
  "13 \<le> i \<Longrightarrow> i < length xs \<Longrightarrow>
   rolling_mean 14 (gain_col (diff xs)) i = Fin (avg_gain xs i)"
  unfolding avg_gain_def by (rule rolling_mean_fin[where n = "length xs"]) (simp_all add: gain_nth)

lemma loss_mean:
  "13 \<le> i \<Longrightarrow> i < length xs \<Longrightarrow>
   rolling_mean 14 (loss_col (diff xs)) i = Fin (avg_loss xs i)"
  unfolding avg_loss_def by (rule rolling_mean_fin[where n = "length xs"]) (simp_all add: loss_nth)

lemma gain_loss_nonneg: "0 \<le> gain_at xs j" "0 \<le> loss_at xs j"
  by (simp_all add: gain_at_def loss_at_def)

lemma avg_nonneg: "0 \<le> avg_gain xs i" "0 \<le> avg_loss xs i"
proof -
  have "0 \<le> sum_list (map (gain_at xs) [i - 13 ..< i + 1])"
    by (rule sum_list_nonneg) (auto simp: gain_loss_nonneg)
  then show "0 \<le> avg_gain xs i" by (simp add: avg_gain_def del: upt_Suc)
  have "0 \<le> sum_list (map (loss_at xs) [i - 13 ..< i + 1])"
    by (rule sum_list_nonneg) (auto simp: gain_loss_nonneg)
  then show "0 \<le> avg_loss xs i" by (simp add: avg_loss_def del: upt_Suc)
qed

lemma rsi_early: "i < 13 \<Longrightarrow> rsi_of closes i = NaN"
  by (simp add: rsi_of_def Let_def rolling_mean_early fsub_def)

lemma rsi_value:
  assumes "13 \<le> i" "i < length closes"
  shows "rsi_of closes i =
     (if avg_loss closes i \<noteq> 0 then Fin (100 - 100 / (1 + avg_gain closes i / avg_loss closes i))
      else if 0 < avg_gain closes i then Fin 100 else NaN)"
proof -
  have "0 \<le> avg_gain closes i / avg_loss closes i"
    using avg_nonneg[of closes i] by simp
  then have "1 + avg_gain closes i / avg_loss closes i \<noteq> 0" by linarith
  then show ?thesis
    using avg_nonneg[of closes i]
    by (auto simp: rsi_of_def Let_def gain_mean[OF assms] loss_mean[OF assms] fsub_def)
qed

lemma rsi_bounds:
  assumes "0 \<le> g" "0 < (l::real)"
  shows "0 \<le> 100 - 100 / (1 + g / l)" "100 - 100 / (1 + g / l) \<le> 100"
proof -
  have "1 \<le> 1 + g / l" using assms by simp
  then have "100 / (1 + g / l) \<le> 100"
    by (simp add: divide_le_eq)
  then show "0 \<le> 100 - 100 / (1 + g / l)" by simp
  have "0 \<le> 100 / (1 + g / l)" using \<open>1 \<le> 1 + g / l\<close> by simp
  then show "100 - 100 / (1 + g / l) \<le> 100" by simp
qed

lemma detect_rsi:
  "i < length df \<Longrightarrow> rsi (snd (detect_elliot_waves df) ! i) = rsi_of (map close df) i"
  by (simp add: detect_elliot_waves_def Let_def candle.defs indicator_row.defs)

text \<open>
  C8, amended. Every RSI value that is defined lies between 0 and 100, and the column
  holds no infinity. The RSI is undefined on the first 13 rows of the data frame (rows
  0 to 12). From the 14th row on, the two rolling means are the averages of the last 14
  gains and losses, the gain and loss of row 0 being 0, and the RSI is undefined only
  where both averages are 0. Where the average loss is 0 and the average gain is
  positive the RSI is 100; nothing is raised.
\<close>

theorem rsi_range_and_warmup:
  "(i < 13 \<longrightarrow> rsi_of closes i = NaN) \<and>
   (i < length closes \<longrightarrow>
      rsi_of closes i = NaN \<or> (\<exists>r. rsi_of closes i = Fin r \<and> 0 \<le> r \<and> r \<le> 100)) \<and>
   (13 \<le> i \<and> i < length closes \<longrightarrow>
      rolling_mean 14 (gain_col (diff closes)) i = Fin (avg_gain closes i) \<and>
      rolling_mean 14 (loss_col (diff closes)) i = Fin (avg_loss closes i) \<and>
      (rsi_of closes i = NaN) = (avg_gain closes i = 0 \<and> avg_loss closes i = 0)) \<and>
   (13 \<le> i \<and> i < length closes \<and> avg_loss closes i = 0 \<and> 0 < avg_gain closes i \<longrightarrow>
      rsi_of closes i = Fin 100) \<and>
   (i < length df \<longrightarrow> rsi (snd (detect_elliot_waves df) ! i) = rsi_of (map close df) i)"
proof -
  have a: "i < 13 \<longrightarrow> rsi_of closes i = NaN"
    by (simp add: rsi_early)
  have b: "i < length closes \<longrightarrow>
      rsi_of closes i = NaN \<or> (\<exists>r. rsi_of closes i = Fin r \<and> 0 \<le> r \<and> r \<le> 100)"
  proof (cases "i < 13")
    case True
    then show ?thesis by (simp add: rsi_early)
  next
    case False
    show ?thesis
    proof
      assume i: "i < length closes"
      have v: "rsi_of closes i =
         (if avg_loss closes i \<noteq> 0
          then Fin (100 - 100 / (1 + avg_gain closes i / avg_loss closes i))
          else if 0 < avg_gain closes i then Fin 100 else NaN)"
        using False i by (intro rsi_value) simp_all
      show "rsi_of closes i = NaN \<or> (\<exists>r. rsi_of closes i = Fin r \<and> 0 \<le> r \<and> r \<le> 100)"
      proof (cases "avg_loss closes i = 0")
        case True
        then show ?thesis by (simp add: v)
      next
        case False
        then have "0 < avg_loss closes i" using avg_nonneg(2)[of closes i] by simp
        then show ?thesis
          using rsi_bounds[OF avg_nonneg(1)[of closes i]] False by (simp add: v)
      qed
    qed
  qed
  have c: "13 \<le> i \<and> i < length closes \<longrightarrow>
      rolling_mean 14 (gain_col (diff closes)) i = Fin (avg_gain closes i) \<and>
      rolling_mean 14 (loss_col (diff closes)) i = Fin (avg_loss closes i) \<and>
      (rsi_of closes i = NaN) = (avg_gain closes i = 0 \<and> avg_loss closes i = 0)"
    using avg_nonneg(1)[of closes i]
    by (auto simp: gain_mean loss_mean rsi_value)
  have d: "13 \<le> i \<and> i < length closes \<and> avg_loss closes i = 0 \<and> 0 < avg_gain closes i \<longrightarrow>
      rsi_of closes i = Fin 100"
    by (simp add: rsi_value)
  have e: "i < length df \<longrightarrow> rsi (snd (detect_elliot_waves df) ! i) = rsi_of (map close df) i"
    by (simp add: detect_rsi)
  show ?thesis using a b c d e by blast
qed

lemma climb_avgs: "avg_gain climb 13 = 13 / 14" "avg_loss climb 13 = 0"
  by (simp_all add: avg_gain_def avg_loss_def gain_at_def loss_at_def climb_def upt_rec)

text \<open>
  C8 as stated fails: the RSI is not undefined on all of the first 14 rows. On a data
  frame of 14 candles whose closes rise from 1 to 14, the 14th row (row 13) has the RSI
  value 100.
\<close>

theorem rsi_defined_at_row_14:
  "length climb_df = 14 \<and> rsi (snd (detect_elliot_waves climb_df) ! 13) = Fin 100"
proof -
  have len: "length climb_df = 14" by (simp add: climb_df_def climb_def)
  have cl: "map close climb_df = climb" by (simp add: climb_df_def climb_def)
  have "rsi_of climb 13 = Fin 100"
    using rsi_value[of 13 climb] by (simp add: climb_avgs) (simp add: climb_def)
  then show ?thesis using len detect_rsi[of 13 climb_df] by (simp add: cl)
qed

theorem rsi_range_and_warmup_witness:
  "(5::nat) < 13 \<and> rsi_of climb 5 = NaN \<and>
   (13::nat) \<le> 13 \<and> 13 < length climb \<and> avg_loss climb 13 = 0 \<and> 0 < avg_gain climb 13 \<and>
   rsi_of climb 13 = Fin 100 \<and>
   13 < length climb_df \<and>
   rsi (snd (detect_elliot_waves climb_df) ! 13) = rsi_of (map close climb_df) 13"
proof -
  note T5 = rsi_range_and_warmup[where i = 5 and closes = climb]
  note T13 = rsi_range_and_warmup[where i = 13 and closes = climb and df = climb_df]
  have a: "rsi_of climb 5 = NaN" using T5 by simp
  have len: "13 < length climb" "13 < length climb_df"
    by (simp_all add: climb_def climb_df_def)
  have avg: "avg_loss climb 13 = 0" "0 < avg_gain climb 13"
    by (simp_all add: climb_avgs)
  have b: "rsi_of climb 13 = Fin 100" using T13 len avg by blast
  have c: "rsi (snd (detect_elliot_waves climb_df) ! 13) = rsi_of (map close climb_df) 13"
    using T13 len by blast
  show ?thesis using a len avg b c by simp
qed

end
